theory Spec2Isabelle
  imports Complex_Main "HOL-Library.List_Lexorder"
begin

section \<open>Text\<close>

text \<open>
  A Python \<open>str\<close> is a sequence of Unicode code points; it is modelled as a list of
  naturals, so that the Cyrillic literals of \<open>main.py\<close> are ordinary values.
  \<open>str\<close> turns an ASCII literal into such a list.

  \<open>str.isspace\<close> is modelled in full. \<open>str.isdigit\<close> and \<open>int()\<close> are modelled
  on the ASCII digits only (digits of other scripts are outside the model);
  \<open>float()\<close> is modelled on the decimal digits of every script.
  SQLite's \<open>lower()\<close> folds the 26 ASCII letters and nothing else, which is what
  \<open>sql_lower\<close> does.
\<close>

type_synonym pystr = "nat list"

definition str :: "string \<Rightarrow> pystr" where
  "str cs = map of_char cs"

definition py_isspace :: "nat \<Rightarrow> bool" where
  "py_isspace c \<longleftrightarrow>
     (9 \<le> c \<and> c \<le> 13) \<or> (28 \<le> c \<and> c \<le> 32) \<or> c = 133 \<or> c = 160 \<or> c = 5760 \<or>
     (8192 \<le> c \<and> c \<le> 8202) \<or> c = 8232 \<or> c = 8233 \<or> c = 8239 \<or> c = 8287 \<or> c = 12288"

definition py_strip :: "pystr \<Rightarrow> pystr" where
  "py_strip s = rev (dropWhile py_isspace (rev (dropWhile py_isspace s)))"

definition is_ascii_digit :: "nat \<Rightarrow> bool" where
  "is_ascii_digit c \<longleftrightarrow> 48 \<le> c \<and> c \<le> 57"

definition py_isdigit :: "pystr \<Rightarrow> bool" where
  "py_isdigit s \<longleftrightarrow> s \<noteq> [] \<and> list_all is_ascii_digit s"

definition digits_value :: "pystr \<Rightarrow> nat" where
  "digits_value ds = foldl (\<lambda>a d. 10 * a + (d - 48)) 0 ds"

definition ascii_lower :: "nat \<Rightarrow> nat" where
  "ascii_lower c = (if 65 \<le> c \<and> c \<le> 90 then c + 32 else c)"

definition sql_lower :: "pystr \<Rightarrow> pystr" where
  "sql_lower s = map ascii_lower s"

text \<open>
  \<open>str.lower\<close>, modelled on the ASCII letters, the basic Cyrillic letters and the
  Kelvin sign (whose lower case is the ASCII \<open>k\<close>); other code points are left as
  they are.
\<close>

definition py_lower_cp :: "nat \<Rightarrow> nat" where
  "py_lower_cp c =
     (if 65 \<le> c \<and> c \<le> 90 then c + 32
      else if 1040 \<le> c \<and> c \<le> 1071 then c + 32
      else if 1024 \<le> c \<and> c \<le> 1039 then c + 80
      else if c = 8490 then 107
      else c)"

definition py_lower :: "pystr \<Rightarrow> pystr" where
  "py_lower s = map py_lower_cp s"

definition startswith :: "pystr \<Rightarrow> pystr \<Rightarrow> bool" where
  "startswith s pre \<longleftrightarrow> take (length pre) s = pre"

definition endswith :: "pystr \<Rightarrow> pystr \<Rightarrow> bool" where
  "endswith s suf \<longleftrightarrow> length suf \<le> length s \<and> drop (length s - length suf) s = suf"

text \<open>\<open>s.split(":")\<close>: the pieces between the colons, at least one.\<close>

fun split_colon_from :: "pystr \<Rightarrow> pystr \<Rightarrow> pystr list" where
  "split_colon_from cur [] = [rev cur]"
| "split_colon_from cur (c # cs) =
     (if c = 58 then rev cur # split_colon_from [] cs else split_colon_from (c # cur) cs)"

definition split_colon :: "pystr \<Rightarrow> pystr list" where
  "split_colon s = split_colon_from [] s"

text \<open>\<open>s.split(":", 1)[1]\<close> for a text with a colon: what follows the first colon.\<close>

definition after_colon :: "pystr \<Rightarrow> pystr" where
  "after_colon s = drop 1 (dropWhile (\<lambda>c. c \<noteq> 58) s)"

section \<open>Numbers\<close>

text \<open>
  A Python \<open>float\<close>. A finite value stands for the binary64 number nearest to it:
  the rounding of a value in range (and the underflow to zero) is not modelled. The
  overflow is: \<open>to_double\<close> gives an infinity from \<open>2^1024 - 2^970\<close> on, the
  midpoint between the largest binary64 number and \<open>2^1024\<close>, where rounding to
  nearest, ties to even, leaves the finite numbers.
\<close>

datatype pyfloat = Finite real | PosInf | NegInf | NaN

fun fneg :: "pyfloat \<Rightarrow> pyfloat" where
  "fneg (Finite x) = Finite (- x)"
| "fneg PosInf = NegInf"
| "fneg NegInf = PosInf"
| "fneg NaN = NaN"

fun fadd :: "pyfloat \<Rightarrow> pyfloat \<Rightarrow> pyfloat" where
  "fadd (Finite x) (Finite y) = Finite (x + y)"
| "fadd NaN _ = NaN"
| "fadd _ NaN = NaN"
| "fadd PosInf NegInf = NaN"
| "fadd NegInf PosInf = NaN"
| "fadd PosInf _ = PosInf"
| "fadd _ PosInf = PosInf"
| "fadd NegInf _ = NegInf"
| "fadd _ NegInf = NegInf"

definition fsub :: "pyfloat \<Rightarrow> pyfloat \<Rightarrow> pyfloat" where
  "fsub a b = fadd a (fneg b)"

definition DBL_OVERFLOW :: real where
  "DBL_OVERFLOW = 2 ^ 1024 - 2 ^ 970"

definition to_double :: "real \<Rightarrow> pyfloat" where
  "to_double x =
     (if DBL_OVERFLOW \<le> x then PosInf else if x \<le> - DBL_OVERFLOW then NegInf else Finite x)"

text \<open>
  The builtin \<open>float(s)\<close> on a string, \<open>None\<close> for \<open>ValueError\<close>. CPython first
  turns a text that is not pure ASCII into ASCII: a decimal digit of any script becomes
  the ASCII digit of its value, a whitespace character becomes a space, and the text
  ends in \<open>?\<close> at the first other character from 127 on. It then strips the ASCII
  whitespace (tab to carriage return, and space) and removes the underscores, each of
  which must stand between two digits; what remains is an optional sign followed by
  \<open>inf\<close>, \<open>infinity\<close> or \<open>nan\<close> in any letter case, or by digits with an
  optional point and an optional exponent, at least one digit in the mantissa, nothing
  left over. A value too large for binary64 is an infinity, not an error.

  \<open>decimal_blocks\<close> lists where the runs of ten decimal digits start (Unicode 14, the
  table of Python 3.11).
\<close>

definition decimal_blocks :: "nat list" where
  "decimal_blocks =
     [48, 1632, 1776, 1984, 2406, 2534, 2662, 2790, 2918, 3046, 3174, 3302, 3430, 3558,
      3664, 3792, 3872, 4160, 4240, 6112, 6160, 6470, 6608, 6784, 6800, 6992, 7088, 7232,
      7248, 42528, 43216, 43264, 43472, 43504, 43600, 44016, 65296, 66720, 68912, 69734,
      69872, 69942, 70096, 70384, 70736, 70864, 71248, 71360, 71472, 71904, 72016, 72784,
      73040, 73120, 92768, 92864, 93008, 120782, 120792, 120802, 120812, 120822, 123200,
      123632, 125264, 130032]"

definition unicode_decimal :: "nat \<Rightarrow> nat option" where
  "unicode_decimal c =
     map_option (\<lambda>b. c - b) (find (\<lambda>b. b \<le> c \<and> c < b + 10) decimal_blocks)"

fun to_ascii_decimal :: "pystr \<Rightarrow> pystr" where
  "to_ascii_decimal [] = []"
| "to_ascii_decimal (c # cs) =
     (if c < 127 then c # to_ascii_decimal cs
      else if py_isspace c then 32 # to_ascii_decimal cs
      else case unicode_decimal c of
             None \<Rightarrow> [63]
           | Some d \<Rightarrow> (48 + d) # to_ascii_decimal cs)"

definition ascii_isspace :: "nat \<Rightarrow> bool" where
  "ascii_isspace c \<longleftrightarrow> (9 \<le> c \<and> c \<le> 13) \<or> c = 32"

definition ascii_strip :: "pystr \<Rightarrow> pystr" where
  "ascii_strip s = rev (dropWhile ascii_isspace (rev (dropWhile ascii_isspace s)))"

fun strip_underscores :: "nat \<Rightarrow> pystr \<Rightarrow> pystr option" where
  "strip_underscores prev [] = (if prev = 95 then None else Some [])"
| "strip_underscores prev (c # cs) =
     (if c = 95 then
        (if is_ascii_digit prev then strip_underscores c cs else None)
      else if prev = 95 \<and> \<not> is_ascii_digit c then None
      else map_option ((#) c) (strip_underscores c cs))"

definition split_sign :: "pystr \<Rightarrow> bool \<times> pystr" where
  "split_sign s =
     (case s of
        [] \<Rightarrow> (False, [])
      | c # cs \<Rightarrow> if c = 45 then (True, cs) else if c = 43 then (False, cs) else (False, s))"

definition scale10 :: "real \<Rightarrow> int \<Rightarrow> real" where
  "scale10 m e = (if 0 \<le> e then m * 10 ^ nat e else m / 10 ^ nat (- e))"

definition parse_exponent :: "pystr \<Rightarrow> int option" where
  "parse_exponent s =
     (case s of
        [] \<Rightarrow> Some 0
      | c # cs \<Rightarrow>
          if c = 101 \<or> c = 69 then
            (let (neg, ds) = split_sign cs in
             if py_isdigit ds
             then Some (if neg then - int (digits_value ds) else int (digits_value ds))
             else None)
          else None)"

definition parse_decimal :: "bool \<Rightarrow> pystr \<Rightarrow> pyfloat option" where
  "parse_decimal neg s =
     (let ip = takeWhile is_ascii_digit s;
          r1 = dropWhile is_ascii_digit s;
          has_point = (r1 \<noteq> [] \<and> hd r1 = 46);
          r2 = (if has_point then tl r1 else r1);
          fp = (if has_point then takeWhile is_ascii_digit r2 else []);
          r3 = (if has_point then dropWhile is_ascii_digit r2 else r2)
      in if ip = [] \<and> fp = [] then None
         else case parse_exponent r3 of
                None \<Rightarrow> None
              | Some e \<Rightarrow>
                  (let x = scale10 (real (digits_value ip)
                                    + real (digits_value fp) / 10 ^ length fp) e
                   in Some (to_double (if neg then - x else x))))"

definition py_float :: "pystr \<Rightarrow> pyfloat option" where
  "py_float s =
     (let ascii = (if list_all (\<lambda>c. c < 128) s then s else to_ascii_decimal s) in
      case strip_underscores 0 (ascii_strip ascii) of
        None \<Rightarrow> None
      | Some t \<Rightarrow>
          (let (neg, body) = split_sign t;
               name = sql_lower body
           in if name = str ''inf'' \<or> name = str ''infinity''
              then Some (if neg then NegInf else PosInf)
              else if name = str ''nan'' then Some NaN
              else parse_decimal neg body))"

text \<open>\<open>utils.parse_number\<close>: every space is removed, every comma becomes a point.\<close>

definition parse_number :: "pystr \<Rightarrow> pyfloat option" where
  "parse_number v =
     (let raw = filter (\<lambda>c. c \<noteq> 32) (py_strip v);
          raw = map (\<lambda>c. if c = 44 then 46 else c) raw
      in if raw = [] then None else py_float raw)"

text \<open>
  The builtin \<open>int(s)\<close> on a string, \<open>None\<close> for \<open>ValueError\<close>: whitespace is
  stripped, underscores may separate digits, a sign may lead.
\<close>

definition py_int :: "pystr \<Rightarrow> int option" where
  "py_int s =
     (case strip_underscores 0 (py_strip s) of
        None \<Rightarrow> None
      | Some t \<Rightarrow>
          (let (neg, body) = split_sign t in
           if py_isdigit body
           then Some (if neg then - int (digits_value body) else int (digits_value body))
           else None))"

text \<open>
  The numbers of the specification's sentence on numeric parsing, in its words: a decimal
  number, with an optional sign, whose decimal separator, if it has one, is a comma or
  a dot. It is what \<open>parse_number\<close> is compared with.
\<close>

definition decimal_number :: "pystr \<Rightarrow> bool" where
  "decimal_number s =
     (let (neg, body) = split_sign s;
          ip = takeWhile is_ascii_digit body;
          r = dropWhile is_ascii_digit body
      in ip \<noteq> [] \<and>
         (if r = [] then True
          else (hd r = 44 \<or> hd r = 46) \<and> tl r \<noteq> [] \<and> list_all is_ascii_digit (tl r)))"

section \<open>Pagination\<close>

definition PAGE_SIZE :: int where
  "PAGE_SIZE = 10"

text \<open>
  The two lines that \<open>render_items_page\<close> and \<open>render_items_by_warehouse\<close> share:
  \<open>total_pages = max(1, math.ceil(total / PAGE_SIZE))\<close> and
  \<open>page = max(1, min(page, total_pages))\<close>.
\<close>

definition total_pages :: "int \<Rightarrow> int" where
  "total_pages n = max 1 \<lceil>real_of_int n / real_of_int PAGE_SIZE\<rceil>"

definition clamp_page :: "int \<Rightarrow> int \<Rightarrow> int" where
  "clamp_page page tp = max 1 (min page tp)"

section \<open>Inventory store (\<open>db.py\<close>)\<close>

text \<open>
  The four tables of \<open>Database.init\<close>, each a list of rows in rowid order, and the
  \<open>AUTOINCREMENT\<close> counters of \<open>sqlite_sequence\<close>. A \<open>REAL NOT NULL\<close> column
  refuses \<open>NaN\<close>, which SQLite binds as \<open>NULL\<close>. \<open>sku TEXT UNIQUE\<close> and
  \<open>name TEXT UNIQUE\<close> compare with the default \<open>BINARY\<close> collation: two texts
  collide when they are the same sequence of code points.
\<close>

record admin_row =
  adm_id :: int
  adm_tg_id :: int
  adm_name :: "pystr option"
  adm_added_at :: pystr

record item_row =
  it_id :: int
  it_sku :: pystr
  it_name :: pystr
  it_qty :: pyfloat
  it_unit :: pystr
  it_location :: "pystr option"
  it_warehouse :: "pystr option"
  it_min_qty :: pyfloat
  it_updated_at :: pystr

record warehouse_row =
  wh_id :: int
  wh_name :: pystr
  wh_created_at :: pystr

record movement_row =
  mv_id :: int
  mv_item_id :: int
  mv_delta :: pyfloat
  mv_note :: "pystr option"
  mv_admin_tg_id :: int
  mv_created_at :: pystr

record database =
  admins :: "admin_row list"
  items :: "item_row list"
  warehouses :: "warehouse_row list"
  movements :: "movement_row list"
  seq_admins :: int
  seq_items :: int
  seq_warehouses :: int
  seq_movements :: int

text \<open>The exceptions that the handlers do not catch.\<close>

datatype error = IntegrityError | KeyError | ValueError | AttributeError | TypeError | IndexError

definition is_admin :: "database \<Rightarrow> int \<Rightarrow> bool" where
  "is_admin d tg_id \<longleftrightarrow> tg_id \<in> set (map adm_tg_id (admins d))"

definition add_admin :: "database \<Rightarrow> pystr \<Rightarrow> int \<Rightarrow> pystr option \<Rightarrow> bool \<Rightarrow> bool \<times> database" where
  "add_admin d now tg_id name silent =
     (if tg_id \<in> set (map adm_tg_id (admins d)) then (if \<not> silent then False else True, d)
      else (True,
            d\<lparr>admins := admins d @
                 [\<lparr>adm_id = seq_admins d + 1, adm_tg_id = tg_id, adm_name = name,
                   adm_added_at = now\<rparr>],
              seq_admins := seq_admins d + 1\<rparr>))"

fun ensure_admins :: "database \<Rightarrow> pystr \<Rightarrow> int list \<Rightarrow> database" where
  "ensure_admins d now [] = d"
| "ensure_admins d now (tg_id # tg_ids) =
     ensure_admins (snd (add_admin d now tg_id (Some (str ''superadmin'')) True)) now tg_ids"

definition remove_admin :: "database \<Rightarrow> int \<Rightarrow> bool \<times> database" where
  "remove_admin d tg_id =
     (0 < length (filter (\<lambda>r. adm_tg_id r = tg_id) (admins d)),
      d\<lparr>admins := filter (\<lambda>r. adm_tg_id r \<noteq> tg_id) (admins d)\<rparr>)"

definition add_item ::
  "database \<Rightarrow> pystr \<Rightarrow> pystr \<Rightarrow> pystr \<Rightarrow> pyfloat \<Rightarrow> pystr \<Rightarrow> pystr option \<Rightarrow> pystr option \<Rightarrow>
   pyfloat \<Rightarrow> bool \<times> database" where
  "add_item d now sku name qty unit location warehouse min_qty =
     (if sku \<in> set (map it_sku (items d)) \<or> qty = NaN \<or> min_qty = NaN then (False, d)
      else (True,
            d\<lparr>items := items d @
                 [\<lparr>it_id = seq_items d + 1, it_sku = sku, it_name = name, it_qty = qty,
                   it_unit = unit, it_location = location, it_warehouse = warehouse,
                   it_min_qty = min_qty, it_updated_at = now\<rparr>],
              seq_items := seq_items d + 1\<rparr>))"

definition get_item_by_id :: "database \<Rightarrow> int \<Rightarrow> item_row option" where
  "get_item_by_id d item_id = find (\<lambda>r. it_id r = item_id) (items d)"

definition get_item_by_sku :: "database \<Rightarrow> pystr \<Rightarrow> item_row option" where
  "get_item_by_sku d sku = find (\<lambda>r. sql_lower (it_sku r) = sql_lower sku) (items d)"

definition get_item_by_key :: "database \<Rightarrow> pystr \<Rightarrow> item_row option" where
  "get_item_by_key d key0 =
     (let key = py_strip key0 in
      if py_isdigit key then
        (case get_item_by_id d (int (digits_value key)) of
           Some item \<Rightarrow> Some item
         | None \<Rightarrow> get_item_by_sku d key)
      else get_item_by_sku d key)"

definition count_items :: "database \<Rightarrow> int" where
  "count_items d = int (length (items d))"

definition list_items :: "database \<Rightarrow> int \<Rightarrow> int \<Rightarrow> item_row list" where
  "list_items d limit offset = take (nat limit) (drop (nat offset) (sort_key it_name (items d)))"

definition update_item_qty :: "database \<Rightarrow> pystr \<Rightarrow> int \<Rightarrow> pyfloat \<Rightarrow> error + database" where
  "update_item_qty d now item_id new_qty =
     (if new_qty = NaN \<and> item_id \<in> set (map it_id (items d)) then Inl IntegrityError
      else Inr (d\<lparr>items := map (\<lambda>r. if it_id r = item_id
                                     then r\<lparr>it_qty := new_qty, it_updated_at := now\<rparr> else r)
                               (items d)\<rparr>))"

definition adjust_item_qty :: "database \<Rightarrow> pystr \<Rightarrow> int \<Rightarrow> pyfloat \<Rightarrow> error + database" where
  "adjust_item_qty d now item_id delta =
     (if NaN \<in> set (map (\<lambda>r. fadd (it_qty r) delta) (filter (\<lambda>r. it_id r = item_id) (items d)))
      then Inl IntegrityError
      else Inr (d\<lparr>items := map (\<lambda>r. if it_id r = item_id
                                     then r\<lparr>it_qty := fadd (it_qty r) delta, it_updated_at := now\<rparr>
                                     else r)
                               (items d)\<rparr>))"

definition delete_item :: "database \<Rightarrow> int \<Rightarrow> bool \<times> database" where
  "delete_item d item_id =
     (0 < length (filter (\<lambda>r. it_id r = item_id) (items d)),
      d\<lparr>items := filter (\<lambda>r. it_id r \<noteq> item_id) (items d),
        movements := (if item_id \<in> set (map it_id (items d))
                      then filter (\<lambda>m. mv_item_id m \<noteq> item_id) (movements d)
                      else movements d)\<rparr>)"

definition add_movement ::
  "database \<Rightarrow> pystr \<Rightarrow> int \<Rightarrow> pyfloat \<Rightarrow> pystr option \<Rightarrow> int \<Rightarrow> error + database" where
  "add_movement d now item_id delta note admin_tg_id =
     (if delta = NaN \<or> item_id \<notin> set (map it_id (items d)) then Inl IntegrityError
      else Inr (d\<lparr>movements := movements d @
                      [\<lparr>mv_id = seq_movements d + 1, mv_item_id = item_id, mv_delta = delta,
                        mv_note = note, mv_admin_tg_id = admin_tg_id, mv_created_at = now\<rparr>],
                   seq_movements := seq_movements d + 1\<rparr>))"

definition add_warehouse :: "database \<Rightarrow> pystr \<Rightarrow> pystr \<Rightarrow> bool \<times> database" where
  "add_warehouse d now name =
     (if name \<in> set (map wh_name (warehouses d)) then (False, d)
      else (True,
            d\<lparr>warehouses := warehouses d @
                   [\<lparr>wh_id = seq_warehouses d + 1, wh_name = name, wh_created_at = now\<rparr>],
              seq_warehouses := seq_warehouses d + 1\<rparr>))"

definition get_warehouse_by_name :: "database \<Rightarrow> pystr \<Rightarrow> warehouse_row option" where
  "get_warehouse_by_name d name = find (\<lambda>w. wh_name w = name) (warehouses d)"

definition get_warehouse_by_id :: "database \<Rightarrow> int \<Rightarrow> warehouse_row option" where
  "get_warehouse_by_id d warehouse_id = find (\<lambda>w. wh_id w = warehouse_id) (warehouses d)"

text \<open>
  \<open>update_item_fields\<close>: a single \<open>UPDATE ... WHERE id = ?\<close> over the fields that are
  not \<open>None\<close>. The statement fails as a whole (\<open>IntegrityError\<close>, answered with
  \<open>False\<close>) when the row exists and its new sku is the sku of another row, or its new
  \<open>min_qty\<close> is \<open>NaN\<close>.
\<close>

definition update_item_fields ::
  "database \<Rightarrow> pystr \<Rightarrow> int \<Rightarrow> pystr option \<Rightarrow> pystr option \<Rightarrow> pystr option \<Rightarrow> pystr option \<Rightarrow>
   pystr option \<Rightarrow> pyfloat option \<Rightarrow> bool \<times> database" where
  "update_item_fields d now item_id name sku unit location warehouse min_qty =
     (let others = filter (\<lambda>r. it_id r \<noteq> item_id) (items d);
          present = item_id \<in> set (map it_id (items d));
          sku_clash = (case sku of None \<Rightarrow> False
                       | Some v \<Rightarrow> present \<and> v \<in> set (map it_sku others));
          null_min = (present \<and> min_qty = Some NaN);
          upd = (\<lambda>r. r\<lparr>it_name := (case name of None \<Rightarrow> it_name r | Some v \<Rightarrow> v),
                       it_sku := (case sku of None \<Rightarrow> it_sku r | Some v \<Rightarrow> v),
                       it_unit := (case unit of None \<Rightarrow> it_unit r | Some v \<Rightarrow> v),
                       it_location := (case location of None \<Rightarrow> it_location r | Some v \<Rightarrow> Some v),
                       it_warehouse := (case warehouse of None \<Rightarrow> it_warehouse r | Some v \<Rightarrow> Some v),
                       it_min_qty := (case min_qty of None \<Rightarrow> it_min_qty r | Some v \<Rightarrow> v),
                       it_updated_at := now\<rparr>)
      in if sku_clash \<or> null_min then (False, d)
         else (True, d\<lparr>items := map (\<lambda>r. if it_id r = item_id then upd r else r) (items d)\<rparr>))"

text \<open>
  Modelled from the spec: the deletion of a warehouse. \<open>db.py\<close> has no operation that
  deletes a warehouse; section 3 of the specification describes one that "does not
  cascade to items". Under the schema of \<open>Database.init\<close>, where \<open>items.warehouse\<close> is
  a plain \<open>TEXT\<close> column with no \<open>REFERENCES\<close> clause, it is the removal of the rows
  of that name from \<open>warehouses\<close>.
\<close>

definition delete_warehouse :: "database \<Rightarrow> pystr \<Rightarrow> bool \<times> database" where
  "delete_warehouse d name =
     (0 < length (filter (\<lambda>w. wh_name w = name) (warehouses d)),
      d\<lparr>warehouses := filter (\<lambda>w. wh_name w \<noteq> name) (warehouses d)\<rparr>)"

definition empty_db :: database where
  "empty_db = \<lparr>admins = [], items = [], warehouses = [], movements = [],
               seq_admins = 0, seq_items = 0, seq_warehouses = 0, seq_movements = 0\<rparr>"

text \<open>
  \<open>ORDER BY\<close>: rows sorted by insertion into an ordered list, so that rows with equal
  keys stay in rowid order. Texts compare by code point (the \<open>BINARY\<close> collation),
  reals by value.
\<close>

fun fle :: "pyfloat \<Rightarrow> pyfloat \<Rightarrow> bool" where
  "fle (Finite x) (Finite y) = (x \<le> y)"
| "fle NegInf _ = True"
| "fle _ PosInf = True"
| "fle NaN _ = True"
| "fle _ _ = False"

fun insert_by :: "('a \<Rightarrow> 'a \<Rightarrow> bool) \<Rightarrow> 'a \<Rightarrow> 'a list \<Rightarrow> 'a list" where
  "insert_by le x [] = [x]"
| "insert_by le x (y # ys) = (if le x y then x # y # ys else y # insert_by le x ys)"

definition order_by :: "('a \<Rightarrow> 'a \<Rightarrow> bool) \<Rightarrow> 'a list \<Rightarrow> 'a list" where
  "order_by le xs = foldr (insert_by le) xs []"

definition count_items_by_warehouse :: "database \<Rightarrow> pystr option \<Rightarrow> int" where
  "count_items_by_warehouse d warehouse_name =
     (case warehouse_name of
        None \<Rightarrow> count_items d
      | Some w \<Rightarrow> int (length (filter (\<lambda>r. it_warehouse r = Some w) (items d))))"

definition list_items_by_warehouse ::
  "database \<Rightarrow> pystr option \<Rightarrow> pystr \<Rightarrow> int \<Rightarrow> int \<Rightarrow> item_row list" where
  "list_items_by_warehouse d warehouse_name sort_arg limit offset =
     (let le = (if sort_arg = str ''qty'' then (\<lambda>a b. fle (it_qty a) (it_qty b))
                else if sort_arg = str ''sku'' then (\<lambda>a b. it_sku a \<le> it_sku b)
                else (\<lambda>a b. it_name a \<le> it_name b));
          rows = (case warehouse_name of
                    None \<Rightarrow> items d
                  | Some w \<Rightarrow> filter (\<lambda>r. it_warehouse r = Some w) (items d))
      in take (nat limit) (drop (nat offset) (order_by le rows)))"

text \<open>
  The remaining queries. \<open>LIKE\<close> is SQLite's: \<open>%\<close> stands for any run of
  characters, \<open>_\<close> for any one character, and letters compare without their ASCII
  case. \<open>search_items\<close> puts the stripped query between two \<open>%\<close>; wildcards in
  the query itself stay wildcards.
\<close>

fun like_match :: "pystr \<Rightarrow> pystr \<Rightarrow> bool" where
  "like_match [] [] = True"
| "like_match [] (c # cs) = False"
| "like_match (p # ps) [] = (p = 37 \<and> like_match ps [])"
| "like_match (p # ps) (c # cs) =
     (if p = 37 then like_match ps (c # cs) \<or> like_match (p # ps) cs
      else (p = 95 \<or> ascii_lower p = ascii_lower c) \<and> like_match ps cs)"

definition search_items :: "database \<Rightarrow> pystr \<Rightarrow> item_row list" where
  "search_items d query =
     (let like = 37 # py_strip query @ [37] in
      take 50 (order_by (\<lambda>a b. it_name a \<le> it_name b)
                 (filter (\<lambda>r. like_match like (it_sku r) \<or> like_match like (it_name r)) (items d))))"

definition list_low_stock :: "database \<Rightarrow> item_row list" where
  "list_low_stock d =
     take 100 (order_by (\<lambda>a b. fle (it_qty a) (it_qty b))
                 (filter (\<lambda>r. fle (Finite 0) (it_min_qty r) \<and> it_min_qty r \<noteq> Finite 0 \<and>
                              fle (it_qty r) (it_min_qty r))
                    (items d)))"

definition export_items :: "database \<Rightarrow> item_row list" where
  "export_items d = order_by (\<lambda>a b. it_name a \<le> it_name b) (items d)"

text \<open>
  \<open>list_movements\<close> joins each movement with its item; the rows are the movements
  that have one, latest first.
\<close>

definition list_movements :: "database \<Rightarrow> movement_row list" where
  "list_movements d =
     take 50 (order_by (\<lambda>a b. mv_created_at b \<le> mv_created_at a)
                (filter (\<lambda>m. mv_item_id m \<in> set (map it_id (items d))) (movements d)))"

definition list_warehouses :: "database \<Rightarrow> warehouse_row list" where
  "list_warehouses d = order_by (\<lambda>a b. wh_name a \<le> wh_name b) (warehouses d)"

definition list_admins :: "database \<Rightarrow> admin_row list" where
  "list_admins d = order_by (\<lambda>a b. adm_added_at a \<le> adm_added_at b) (admins d)"

section \<open>Rendering of the paginated lists (\<open>main.py\<close>)\<close>

text \<open>
  The text of a page is kept as data: either the "no items" line, or the header with
  the page number and the number of pages, and the rows of the table.
\<close>

datatype page_text = NoItems | ItemsPage int int "item_row list"

definition render_items_page :: "database \<Rightarrow> int \<Rightarrow> page_text \<times> int" where
  "render_items_page d page0 =
     (let n = count_items d;
          tp = total_pages n;
          page = clamp_page page0 tp;
          rows = list_items d PAGE_SIZE ((page - 1) * PAGE_SIZE)
      in if rows = [] then (NoItems, tp) else (ItemsPage page tp rows, tp))"

definition render_items_by_warehouse ::
  "database \<Rightarrow> pystr option \<Rightarrow> pystr \<Rightarrow> int \<Rightarrow> page_text \<times> int" where
  "render_items_by_warehouse d warehouse_name sort_arg page0 =
     (let n = count_items_by_warehouse d warehouse_name;
          tp = total_pages n;
          page = clamp_page page0 tp;
          rows = list_items_by_warehouse d warehouse_name sort_arg PAGE_SIZE
                   ((page - 1) * PAGE_SIZE)
      in if rows = [] then (NoItems, tp) else (ItemsPage page tp rows, tp))"

section \<open>Sessions, context and replies\<close>

text \<open>The states of \<open>states.py\<close>, one constructor for each \<open>State()\<close>.\<close>

datatype fsm_state =
    AddItem_sku | AddItem_name | AddItem_qty | AddItem_unit | AddItem_location
  | AddItem_warehouse | AddItem_min_qty
  | AdjustItem_key | AdjustItem_delta | AdjustItem_note
  | SetQty_key | SetQty_qty | SetQty_note
  | DeleteItem_key | DeleteItem_confirm
  | UpdateItem_key | UpdateItem_field | UpdateItem_value
  | SearchItem_query
  | AddAdmin_tg_id | AddAdmin_name
  | RemoveAdmin_tg_id
  | AddWarehouse_name
  | BulkAdd_lines

text \<open>
  The data dictionary of a dialogue. Every key that the handlers write holds values of
  one type, so the dictionary is a record of optional fields: \<open>None\<close> is an absent
  key. \<open>location\<close> and \<open>warehouse\<close> may be present with the value \<open>None\<close>.
\<close>

record sdata =
  d_sku :: "pystr option"
  d_name :: "pystr option"
  d_qty :: "pyfloat option"
  d_unit :: "pystr option"
  d_location :: "pystr option option"
  d_warehouse :: "pystr option option"
  d_min_qty :: "pyfloat option"
  d_item_id :: "int option"
  d_current_qty :: "pyfloat option"
  d_delta :: "pyfloat option"
  d_field :: "pystr option"
  d_preset_field :: "pystr option"
  d_tg_id :: "int option"

definition empty_data :: sdata where
  "empty_data =
     \<lparr>d_sku = None, d_name = None, d_qty = None, d_unit = None, d_location = None,
      d_warehouse = None, d_min_qty = None, d_item_id = None, d_current_qty = None,
      d_delta = None, d_field = None, d_preset_field = None, d_tg_id = None\<rparr>"

record session =
  ses_state :: "fsm_state option"
  ses_data :: sdata

definition idle :: session where
  "idle = \<lparr>ses_state = None, ses_data = empty_data\<rparr>"

text \<open>
  What a handler receives besides the event: the configured super-admins
  (\<open>config.py\<close>), the clock read by \<open>Database._now\<close>, the bot's user name, which
  the command filter compares a mention with, the path of the database file and
  whether that file exists (read by the backup handler), and the button labels of
  \<open>constants.py\<close>. That module is not among the sources, so its labels are parameters.
\<close>

record env =
  super_admins :: "int set"
  clock :: pystr
  bot_username :: "pystr option"
  db_path :: pystr
  db_file_exists :: bool
  BTN_ADD_ITEM :: pystr
  BTN_ADMIN :: pystr
  BTN_ADJUST_QTY :: pystr
  BTN_BULK_ADD :: pystr
  BTN_CANCEL :: pystr
  BTN_DELETE_ITEM :: pystr
  BTN_EXPORT_CSV :: pystr
  BTN_HELP :: pystr
  BTN_HISTORY :: pystr
  BTN_LOW_STOCK :: pystr
  BTN_LIST_ITEMS :: pystr
  BTN_REPORTS :: pystr
  BTN_SEARCH :: pystr
  BTN_SETTINGS :: pystr
  BTN_SET_QTY :: pystr
  BTN_WAREHOUSES :: pystr
  BTN_WAREHOUSE :: pystr

text \<open>
  The replies. A text that the source writes as a literal is \<open>Say\<close> with a name
  for that literal; a text built from data is a constructor that carries the data.
  \<open>Alert\<close> is \<open>callback.answer(..., show_alert=True)\<close>, \<open>CallbackAck\<close> the empty
  \<open>callback.answer()\<close>.
\<close>

datatype row_error = MissingFields nat | BadQty nat | BadMinQty nat | DuplicateSku nat

datatype reply =
    Say string
  | Alert string
  | CallbackAck
  | YourId int
  | SimilarItems "item_row list"
  | AskWarehouse "pystr option" "warehouse_row list"
  | ItemCard string "item_row option"
  | ItemsTable string "item_row list"
  | ItemsList page_text int
  | ExportDocument "item_row list"
  | History "movement_row list"
  | WarehouseList "warehouse_row list"
  | AdminList "admin_row list"
  | ChooseWarehouseFilter "warehouse_row list"
  | BackupDocument
  | BulkReport nat nat "row_error list" nat

text \<open>
  The whole state: the store, the \<open>MemoryStorage\<close> of the dialogues keyed by user, and
  the replies sent so far, each with the user it went to.
\<close>

record system =
  store :: database
  fsm :: "int \<Rightarrow> session"
  outbox :: "(int \<times> reply) list"

definition get_state :: "system \<Rightarrow> int \<Rightarrow> fsm_state option" where
  "get_state sys uid = ses_state (fsm sys uid)"

definition get_data :: "system \<Rightarrow> int \<Rightarrow> sdata" where
  "get_data sys uid = ses_data (fsm sys uid)"

definition set_state :: "int \<Rightarrow> fsm_state option \<Rightarrow> system \<Rightarrow> system" where
  "set_state uid st sys = sys\<lparr>fsm := (fsm sys)(uid := (fsm sys uid)\<lparr>ses_state := st\<rparr>)\<rparr>"

definition update_data :: "int \<Rightarrow> (sdata \<Rightarrow> sdata) \<Rightarrow> system \<Rightarrow> system" where
  "update_data uid f sys =
     sys\<lparr>fsm := (fsm sys)(uid := (fsm sys uid)\<lparr>ses_data := f (ses_data (fsm sys uid))\<rparr>)\<rparr>"

definition clear_state :: "int \<Rightarrow> system \<Rightarrow> system" where
  "clear_state uid sys = sys\<lparr>fsm := (fsm sys)(uid := idle)\<rparr>"

definition answer :: "int \<Rightarrow> reply \<Rightarrow> system \<Rightarrow> system" where
  "answer uid r sys = sys\<lparr>outbox := outbox sys @ [(uid, r)]\<rparr>"

definition is_super_admin :: "int \<Rightarrow> env \<Rightarrow> bool" where
  "is_super_admin user_id config \<longleftrightarrow> user_id \<in> super_admins config"

section \<open>Handlers of the dialogues (\<open>main.py\<close>)\<close>

text \<open>
  A handler takes the context, the user of the event, the text of the message (absent
  for a message without text) and the state, and returns the state it leaves and the
  exception that ended it, if one did. What it did before the exception stays done.
\<close>

type_synonym handler = "env \<Rightarrow> int \<Rightarrow> pystr option \<Rightarrow> system \<Rightarrow> system \<times> error option"

subsection \<open>AddWarehouse\<close>

definition warehouse_add_start :: handler where
  "warehouse_add_start cx uid cb sys =
     (answer uid (Say ''enter warehouse name'')
        (set_state uid (Some AddWarehouse_name) (answer uid CallbackAck sys)), None)"

definition warehouse_add_name :: handler where
  "warehouse_add_name cx uid text sys =
     (case text of
        None \<Rightarrow> (sys, Some AttributeError)
      | Some t \<Rightarrow>
          let name = py_strip t in
          if name = [] then (answer uid (Say ''name must not be empty'') sys, None)
          else
            let (ok, d) = add_warehouse (store sys) (clock cx) name;
                sys1 = clear_state uid (sys\<lparr>store := d\<rparr>)
            in if ok then (answer uid (Say ''warehouse added'') sys1, None)
               else (answer uid (Say ''warehouse already exists'') sys1, None))"

subsection \<open>AddAdmin and RemoveAdmin\<close>

definition admin_add_start :: handler where
  "admin_add_start cx uid cb sys =
     (let sys1 = answer uid CallbackAck sys in
      if \<not> is_super_admin uid cx then (answer uid (Say ''insufficient rights'') sys1, None)
      else (answer uid (Say ''enter new admin id'') (set_state uid (Some AddAdmin_tg_id) sys1),
            None))"

definition admin_add_tg_id :: handler where
  "admin_add_tg_id cx uid text sys =
     (if \<not> is_super_admin uid cx
      then (answer uid (Say ''insufficient rights'') (clear_state uid sys), None)
      else case text of
        None \<Rightarrow> (sys, Some AttributeError)
      | Some t \<Rightarrow>
          if \<not> py_isdigit (py_strip t) then (answer uid (Say ''numeric id needed'') sys, None)
          else (answer uid (Say ''enter admin name'')
                  (set_state uid (Some AddAdmin_name)
                     (update_data uid (\<lambda>d. d\<lparr>d_tg_id := Some (int (digits_value (py_strip t)))\<rparr>)
                        sys)),
                None))"

definition admin_add_name :: handler where
  "admin_add_name cx uid text sys =
     (if \<not> is_super_admin uid cx
      then (answer uid (Say ''insufficient rights'') (clear_state uid sys), None)
      else case text of
        None \<Rightarrow> (sys, Some AttributeError)
      | Some t \<Rightarrow>
          let name = (if py_strip t = str ''-'' then None else Some (py_strip t)) in
          case d_tg_id (get_data sys uid) of
            None \<Rightarrow> (sys, Some KeyError)
          | Some tg_id \<Rightarrow>
              let (ok, d) = add_admin (store sys) (clock cx) tg_id name False;
                  sys1 = clear_state uid (sys\<lparr>store := d\<rparr>)
              in if ok then (answer uid (Say ''admin added'') sys1, None)
                 else (answer uid (Say ''admin already exists'') sys1, None))"

definition admin_remove_start :: handler where
  "admin_remove_start cx uid cb sys =
     (let sys1 = answer uid CallbackAck sys in
      if \<not> is_super_admin uid cx then (answer uid (Say ''insufficient rights'') sys1, None)
      else (answer uid (Say ''enter admin id to remove'')
              (set_state uid (Some RemoveAdmin_tg_id) sys1),
            None))"

definition admin_remove_tg_id :: handler where
  "admin_remove_tg_id cx uid text sys =
     (if \<not> is_super_admin uid cx
      then (answer uid (Say ''insufficient rights'') (clear_state uid sys), None)
      else case text of
        None \<Rightarrow> (sys, Some AttributeError)
      | Some t \<Rightarrow>
          if \<not> py_isdigit (py_strip t) then (answer uid (Say ''numeric id needed'') sys, None)
          else
            let tg_id = int (digits_value (py_strip t));
                (ok, d) = remove_admin (store sys) tg_id;
                sys1 = clear_state uid (sys\<lparr>store := d\<rparr>)
            in if ok then (answer uid (Say ''admin removed'') sys1, None)
               else (answer uid (Say ''admin not found'') sys1, None))"

subsection \<open>SetQty\<close>

definition set_qty_start :: "bool \<Rightarrow> handler" where
  "set_qty_start is_callback cx uid ev sys =
     (answer uid (Say ''enter sku or id'')
        (set_state uid (Some SetQty_key) (if is_callback then answer uid CallbackAck sys else sys)),
      None)"

definition set_qty_key :: handler where
  "set_qty_key cx uid text sys =
     (case text of
        None \<Rightarrow> (sys, Some AttributeError)
      | Some t \<Rightarrow>
          case get_item_by_key (store sys) t of
            None \<Rightarrow> (answer uid (Say ''item not found, enter sku or id'') sys, None)
          | Some item \<Rightarrow>
              (answer uid (ItemCard ''item found, enter new quantity'' (Some item))
                 (set_state uid (Some SetQty_qty)
                    (update_data uid
                       (\<lambda>d. d\<lparr>d_item_id := Some (it_id item), d_current_qty := Some (it_qty item)\<rparr>)
                       sys)),
               None))"

definition set_qty_value :: handler where
  "set_qty_value cx uid text sys =
     (case text of
        None \<Rightarrow> (sys, Some AttributeError)
      | Some t \<Rightarrow>
          case parse_number t of
            None \<Rightarrow> (answer uid (Say ''number needed'') sys, None)
          | Some qty \<Rightarrow>
              (answer uid (Say ''enter note'')
                 (set_state uid (Some SetQty_note)
                    (update_data uid (\<lambda>d. d\<lparr>d_qty := Some qty\<rparr>) sys)),
               None))"

definition set_qty_note :: handler where
  "set_qty_note cx uid text sys =
     (case text of
        None \<Rightarrow> (sys, Some AttributeError)
      | Some t \<Rightarrow>
          let note = (if py_strip t = str ''-'' then None else Some (py_strip t));
              data = get_data sys uid
          in case (d_qty data, d_current_qty data, d_item_id data) of
               (Some qty, Some current_qty, Some item_id) \<Rightarrow>
                 (let delta = fsub qty current_qty in
                  case update_item_qty (store sys) (clock cx) item_id qty of
                    Inl e \<Rightarrow> (sys, Some e)
                  | Inr d1 \<Rightarrow>
                      (case add_movement d1 (clock cx) item_id delta note uid of
                         Inl e \<Rightarrow> (sys\<lparr>store := d1\<rparr>, Some e)
                       | Inr d2 \<Rightarrow>
                           (let item = get_item_by_id d2 item_id;
                                sys1 = clear_state uid (sys\<lparr>store := d2\<rparr>)
                            in case item of
                                 None \<Rightarrow> (sys1, Some TypeError)
                               | Some i \<Rightarrow> (answer uid (ItemCard ''quantity set'' (Some i)) sys1, None))))
             | _ \<Rightarrow> (sys, Some KeyError))"

subsection \<open>BulkAdd\<close>

text \<open>
  \<open>str.splitlines\<close>: the text is cut at every line boundary (\<open>\n\<close>, \<open>\r\<close>,
  \<open>\r\n\<close>, \<open>\v\<close>, \<open>\f\<close>, the separators 28 to 30, 133, 8232 and 8233), and a
  boundary at the very end opens no further line.
\<close>

definition is_linebreak :: "nat \<Rightarrow> bool" where
  "is_linebreak c \<longleftrightarrow>
     (10 \<le> c \<and> c \<le> 13) \<or> (28 \<le> c \<and> c \<le> 30) \<or> c = 133 \<or> c = 8232 \<or> c = 8233"

fun splitlines_from :: "pystr \<Rightarrow> pystr \<Rightarrow> pystr list" where
  "splitlines_from cur [] = (if cur = [] then [] else [rev cur])"
| "splitlines_from cur [c] = (if is_linebreak c then [rev cur] else [rev (c # cur)])"
| "splitlines_from cur (c # d # cs) =
     (if c = 13 \<and> d = 10 then rev cur # splitlines_from [] cs
      else if is_linebreak c then rev cur # splitlines_from [] (d # cs)
      else splitlines_from (c # cur) (d # cs))"

definition py_splitlines :: "pystr \<Rightarrow> pystr list" where
  "py_splitlines s = splitlines_from [] s"

text \<open>
  \<open>csv.reader([line], delimiter=",", skipinitialspace=True)\<close> on one line without
  line breaks: the states of the reader of CPython for the default dialect (quote
  character \<open>"\<close>, doubled quotes, not strict). At the end of the line the field in
  progress is saved, also inside an unterminated quoted field.
\<close>

datatype csv_state = START_FIELD | IN_FIELD | IN_QUOTED_FIELD | QUOTE_IN_QUOTED_FIELD

fun csv_fields :: "csv_state \<Rightarrow> pystr \<Rightarrow> pystr \<Rightarrow> pystr list" where
  "csv_fields st cur [] = [rev cur]"
| "csv_fields START_FIELD cur (c # cs) =
     (if c = 34 then csv_fields IN_QUOTED_FIELD cur cs
      else if c = 32 then csv_fields START_FIELD cur cs
      else if c = 44 then rev cur # csv_fields START_FIELD [] cs
      else csv_fields IN_FIELD (c # cur) cs)"
| "csv_fields IN_FIELD cur (c # cs) =
     (if c = 44 then rev cur # csv_fields START_FIELD [] cs
      else csv_fields IN_FIELD (c # cur) cs)"
| "csv_fields IN_QUOTED_FIELD cur (c # cs) =
     (if c = 34 then csv_fields QUOTE_IN_QUOTED_FIELD cur cs
      else csv_fields IN_QUOTED_FIELD (c # cur) cs)"
| "csv_fields QUOTE_IN_QUOTED_FIELD cur (c # cs) =
     (if c = 34 then csv_fields IN_QUOTED_FIELD (34 # cur) cs
      else if c = 44 then rev cur # csv_fields START_FIELD [] cs
      else csv_fields IN_FIELD (c # cur) cs)"

definition csv_row :: "pystr \<Rightarrow> pystr list" where
  "csv_row line = (if line = [] then [] else csv_fields START_FIELD [] line)"

definition parse_bulk_lines :: "pystr \<Rightarrow> pystr list list" where
  "parse_bulk_lines text =
     map csv_row (filter (\<lambda>line. line \<noteq> []) (map py_strip (py_splitlines text)))"

text \<open>\<open>row[i].strip() if len(row) > i else default\<close>.\<close>

definition field_at :: "pystr list \<Rightarrow> nat \<Rightarrow> pystr \<Rightarrow> pystr" where
  "field_at row i dflt = (if i < length row then py_strip (row ! i) else dflt)"

text \<open>
  The body of the loop of \<open>bulk_add_process\<close> for the row number \<open>idx\<close>; the
  counters, the errors and the store are passed along. The default unit is the literal
  of the source (the two Cyrillic letters 1096 and 1090).
\<close>

definition bulk_row ::
  "pystr \<Rightarrow> nat \<Rightarrow> pystr list \<Rightarrow> nat \<times> nat \<times> row_error list \<times> database \<Rightarrow>
   nat \<times> nat \<times> row_error list \<times> database" where
  "bulk_row nw idx row acc =
     (case acc of (created, skipped, errors, d) \<Rightarrow>
        let sku = field_at row 0 [];
            name = field_at row 1 [];
            qty_raw = field_at row 2 [];
            unit = (if 3 < length row \<and> py_strip (row ! 3) \<noteq> [] then py_strip (row ! 3)
                    else [1096, 1090]);
            location = field_at row 4 [];
            warehouse = field_at row 5 [];
            min_qty_raw = field_at row 6 (str ''0'')
        in if sku = [] \<or> name = [] \<or> qty_raw = []
           then (created, skipped, errors @ [MissingFields idx], d)
           else case parse_number qty_raw of
             None \<Rightarrow> (created, skipped, errors @ [BadQty idx], d)
           | Some qty \<Rightarrow>
               (case parse_number min_qty_raw of
                  None \<Rightarrow> (created, skipped, errors @ [BadMinQty idx], d)
                | Some min_qty \<Rightarrow>
                    let location = (if location = [] then None else Some location);
                        warehouse = (if warehouse = [] then None else Some warehouse);
                        d1 = (case warehouse of
                                None \<Rightarrow> d
                              | Some w \<Rightarrow>
                                  (case get_warehouse_by_name d w of
                                     None \<Rightarrow> snd (add_warehouse d nw w)
                                   | Some wh \<Rightarrow> d));
                        (ok, d2) = add_item d1 nw sku name qty unit location warehouse min_qty
                    in if ok then (created + 1, skipped, errors, d2)
                       else (created, skipped + 1, errors @ [DuplicateSku idx], d2)))"

fun bulk_loop ::
  "pystr \<Rightarrow> nat \<Rightarrow> pystr list list \<Rightarrow> nat \<times> nat \<times> row_error list \<times> database \<Rightarrow>
   nat \<times> nat \<times> row_error list \<times> database" where
  "bulk_loop nw idx [] acc = acc"
| "bulk_loop nw idx (row # rows) acc = bulk_loop nw (idx + 1) rows (bulk_row nw idx row acc)"

definition bulk_add_process :: handler where
  "bulk_add_process cx uid text sys =
     (let rows = parse_bulk_lines (case text of None \<Rightarrow> [] | Some t \<Rightarrow> t) in
      if rows = [] then (answer uid (Say ''list is empty'') sys, None)
      else case bulk_loop (clock cx) 1 rows (0, 0, [], store sys) of
        (created, skipped, errors, d) \<Rightarrow>
          (answer uid (BulkReport created skipped (take 10 errors) (length errors - 10))
             (clear_state uid (sys\<lparr>store := d\<rparr>)),
           None))"

text \<open>
  The message that carries a list of lines (\<open>"\n".join(lines)\<close>), and the replies
  that \<open>bulk_add_process\<close> sends for it.
\<close>

fun join_lines :: "pystr list \<Rightarrow> pystr" where
  "join_lines [] = []"
| "join_lines [l] = l"
| "join_lines (l # m # ls) = l @ 10 # join_lines (m # ls)"

definition bulk_replies :: "env \<Rightarrow> int \<Rightarrow> pystr list \<Rightarrow> system \<Rightarrow> (int \<times> reply) list" where
  "bulk_replies cx uid ls sys =
     drop (length (outbox sys)) (outbox (fst (bulk_add_process cx uid (Some (join_lines ls)) sys)))"

subsection \<open>AddItem: the sku step\<close>

definition add_item_sku :: handler where
  "add_item_sku cx uid text sys =
     (case text of
        None \<Rightarrow> (sys, Some AttributeError)
      | Some t \<Rightarrow>
          let sku = py_strip t in
          if sku = [] then (answer uid (Say ''sku must not be empty'') sys, None)
          else if get_item_by_sku (store sys) sku \<noteq> None
          then (answer uid (Say ''sku already exists, enter another'') sys, None)
          else (answer uid (Say ''enter item name'')
                  (set_state uid (Some AddItem_name)
                     (update_data uid (\<lambda>d. d\<lparr>d_sku := Some sku\<rparr>) sys)),
                None))"

subsection \<open>AddItem: the other steps\<close>

definition add_item_start :: "bool \<Rightarrow> handler" where
  "add_item_start is_callback cx uid ev sys =
     (answer uid (Say ''enter sku'')
        (set_state uid (Some AddItem_sku) (if is_callback then answer uid CallbackAck sys else sys)),
      None)"

definition add_item_name :: handler where
  "add_item_name cx uid text sys =
     (case text of
        None \<Rightarrow> (sys, Some AttributeError)
      | Some t \<Rightarrow>
          let name = py_strip t in
          if name = [] then (answer uid (Say ''name must not be empty'') sys, None)
          else
            let sys1 = set_state uid (Some AddItem_qty)
                         (update_data uid (\<lambda>d. d\<lparr>d_name := Some name\<rparr>) sys);
                suggestions = search_items (store sys) name;
                sys2 = (if suggestions = [] then sys1
                        else answer uid (SimilarItems (take 5 suggestions)) sys1)
            in (answer uid (Say ''enter initial quantity'') sys2, None))"

definition add_item_prefill :: handler where
  "add_item_prefill cx uid cb sys =
     (let sys1 = answer uid CallbackAck sys in
      case cb of
        None \<Rightarrow> (sys1, Some AttributeError)
      | Some data \<Rightarrow>
          if endswith data (str '':skip'') then (answer uid (Say ''template skipped'') sys1, None)
          else case py_int (after_colon data) of
            None \<Rightarrow> (sys1, Some ValueError)
          | Some item_id \<Rightarrow>
              (case get_item_by_id (store sys) item_id of
                 None \<Rightarrow> (answer uid (Say ''template not found'') sys1, None)
               | Some item \<Rightarrow>
                   (answer uid (Say ''template applied'')
                      (update_data uid
                         (\<lambda>d. d\<lparr>d_unit := Some (it_unit item),
                                 d_location := Some (it_location item),
                                 d_min_qty := Some (it_min_qty item),
                                 d_warehouse := Some (it_warehouse item)\<rparr>)
                         sys1),
                    None)))"

definition add_item_qty :: handler where
  "add_item_qty cx uid text sys =
     (case text of
        None \<Rightarrow> (sys, Some AttributeError)
      | Some t \<Rightarrow>
          case parse_number t of
            None \<Rightarrow> (answer uid (Say ''number needed'') sys, None)
          | Some qty \<Rightarrow>
              (answer uid (Say ''enter unit'')
                 (set_state uid (Some AddItem_unit)
                    (update_data uid (\<lambda>d. d\<lparr>d_qty := Some qty\<rparr>) sys)),
               None))"

definition add_item_unit :: handler where
  "add_item_unit cx uid text sys =
     (case text of
        None \<Rightarrow> (sys, Some AttributeError)
      | Some t \<Rightarrow>
          let unit0 = py_strip t;
              known = (case d_unit (get_data sys uid) of None \<Rightarrow> [] | Some u \<Rightarrow> u);
              unit = (if unit0 = str ''-'' \<and> known \<noteq> [] then known
                      else if unit0 = str ''-'' \<or> unit0 = [] then [1096, 1090]
                      else unit0)
          in (answer uid (Say ''enter location'')
                (set_state uid (Some AddItem_location)
                   (update_data uid (\<lambda>d. d\<lparr>d_unit := Some unit\<rparr>) sys)),
              None))"

definition add_item_location :: handler where
  "add_item_location cx uid text sys =
     (case text of
        None \<Rightarrow> (sys, Some AttributeError)
      | Some t \<Rightarrow>
          let location0 = py_strip t;
              data = get_data sys uid;
              location = (case d_location data of
                            Some (Some l) \<Rightarrow> if location0 = str ''-'' then Some l else Some location0
                          | _ \<Rightarrow> if location0 = str ''-'' then None else Some location0);
              existing = (case d_warehouse data of
                            Some (Some w) \<Rightarrow> if w = [] then None else Some w
                          | _ \<Rightarrow> None)
          in (answer uid (AskWarehouse existing (list_warehouses (store sys)))
                (set_state uid (Some AddItem_warehouse)
                   (update_data uid (\<lambda>d. d\<lparr>d_location := Some location\<rparr>) sys)),
              None))"

definition add_item_warehouse_select :: handler where
  "add_item_warehouse_select cx uid cb sys =
     (let sys1 = answer uid CallbackAck sys in
      case cb of
        None \<Rightarrow> (sys1, Some AttributeError)
      | Some data \<Rightarrow>
          let raw_id = after_colon data in
          if raw_id = [] \<or> raw_id = str ''0'' then
            (let sys2 = (case d_warehouse (get_data sys uid) of
                           Some (Some w) \<Rightarrow> sys1
                         | _ \<Rightarrow> update_data uid (\<lambda>d. d\<lparr>d_warehouse := Some None\<rparr>) sys1)
             in (answer uid (Say ''enter minimum quantity'')
                   (set_state uid (Some AddItem_min_qty) sys2), None))
          else case py_int raw_id of
            None \<Rightarrow> (sys1, Some ValueError)
          | Some wid \<Rightarrow>
              (case get_warehouse_by_id (store sys) wid of
                 None \<Rightarrow> (answer uid (Say ''warehouse not found'') sys1, None)
               | Some wh \<Rightarrow>
                   (answer uid (Say ''enter minimum quantity'')
                      (set_state uid (Some AddItem_min_qty)
                         (update_data uid (\<lambda>d. d\<lparr>d_warehouse := Some (Some (wh_name wh))\<rparr>) sys1)),
                    None)))"

definition add_item_min :: handler where
  "add_item_min cx uid text sys =
     (let data = get_data sys uid in
      case text of
        None \<Rightarrow> (sys, Some AttributeError)
      | Some t \<Rightarrow>
          let chosen = (if py_strip t = str ''-'' \<and> d_min_qty data \<noteq> None then d_min_qty data
                        else parse_number t)
          in case chosen of
               None \<Rightarrow> (answer uid (Say ''number needed'') sys, None)
             | Some min_qty \<Rightarrow>
                 (case (d_sku data, d_name data, d_qty data, d_unit data) of
                    (Some sku, Some name, Some qty, Some unit) \<Rightarrow>
                      (let (ok, d) = add_item (store sys) (clock cx) sku name qty unit
                                       (case d_location data of None \<Rightarrow> None | Some l \<Rightarrow> l)
                                       (case d_warehouse data of None \<Rightarrow> None | Some w \<Rightarrow> w)
                                       min_qty;
                           sys1 = clear_state uid (sys\<lparr>store := d\<rparr>)
                       in if \<not> ok then (answer uid (Say ''item not added, sku exists'') sys1, None)
                          else case get_item_by_sku d sku of
                                 None \<Rightarrow> (sys1, Some TypeError)
                               | Some item \<Rightarrow> (answer uid (ItemCard ''item added'' (Some item)) sys1, None))
                  | _ \<Rightarrow> (sys, Some KeyError)))"

subsection \<open>AdjustItem\<close>

definition adjust_qty_start :: "bool \<Rightarrow> handler" where
  "adjust_qty_start is_callback cx uid ev sys =
     (answer uid (Say ''enter sku or id'')
        (set_state uid (Some AdjustItem_key) (if is_callback then answer uid CallbackAck sys else sys)),
      None)"

definition adjust_qty_key :: handler where
  "adjust_qty_key cx uid text sys =
     (case text of
        None \<Rightarrow> (sys, Some AttributeError)
      | Some t \<Rightarrow>
          case get_item_by_key (store sys) t of
            None \<Rightarrow> (answer uid (Say ''item not found, enter sku or id'') sys, None)
          | Some item \<Rightarrow>
              (answer uid (ItemCard ''item found, enter change'' (Some item))
                 (set_state uid (Some AdjustItem_delta)
                    (update_data uid
                       (\<lambda>d. d\<lparr>d_item_id := Some (it_id item), d_current_qty := Some (it_qty item)\<rparr>)
                       sys)),
               None))"

definition adjust_qty_delta :: handler where
  "adjust_qty_delta cx uid text sys =
     (case text of
        None \<Rightarrow> (sys, Some AttributeError)
      | Some t \<Rightarrow>
          case parse_number t of
            None \<Rightarrow> (answer uid (Say ''number needed'') sys, None)
          | Some delta \<Rightarrow>
              (answer uid (Say ''enter note'')
                 (set_state uid (Some AdjustItem_note)
                    (update_data uid (\<lambda>d. d\<lparr>d_delta := Some delta\<rparr>) sys)),
               None))"

definition adjust_qty_note :: handler where
  "adjust_qty_note cx uid text sys =
     (case text of
        None \<Rightarrow> (sys, Some AttributeError)
      | Some t \<Rightarrow>
          let note = (if py_strip t = str ''-'' then None else Some (py_strip t));
              data = get_data sys uid
          in case (d_item_id data, d_delta data) of
               (Some item_id, Some delta) \<Rightarrow>
                 (case adjust_item_qty (store sys) (clock cx) item_id delta of
                    Inl e \<Rightarrow> (sys, Some e)
                  | Inr d1 \<Rightarrow>
                      (case add_movement d1 (clock cx) item_id delta note uid of
                         Inl e \<Rightarrow> (sys\<lparr>store := d1\<rparr>, Some e)
                       | Inr d2 \<Rightarrow>
                           (let sys1 = clear_state uid (sys\<lparr>store := d2\<rparr>) in
                            case get_item_by_id d2 item_id of
                              None \<Rightarrow> (sys1, Some TypeError)
                            | Some i \<Rightarrow> (answer uid (ItemCard ''quantity updated'' (Some i)) sys1, None))))
             | _ \<Rightarrow> (sys, Some KeyError))"

subsection \<open>DeleteItem\<close>

definition delete_item_start :: "bool \<Rightarrow> handler" where
  "delete_item_start is_callback cx uid ev sys =
     (answer uid (Say ''enter sku or id to delete'')
        (set_state uid (Some DeleteItem_key) (if is_callback then answer uid CallbackAck sys else sys)),
      None)"

definition delete_item_key :: handler where
  "delete_item_key cx uid text sys =
     (case text of
        None \<Rightarrow> (sys, Some AttributeError)
      | Some t \<Rightarrow>
          case get_item_by_key (store sys) t of
            None \<Rightarrow> (answer uid (Say ''item not found, enter sku or id'') sys, None)
          | Some item \<Rightarrow>
              (answer uid (ItemCard ''confirm deletion'' (Some item))
                 (set_state uid (Some DeleteItem_confirm)
                    (update_data uid (\<lambda>d. d\<lparr>d_item_id := Some (it_id item)\<rparr>) sys)),
               None))"

definition delete_item_confirm :: handler where
  "delete_item_confirm cx uid text sys =
     (case text of
        None \<Rightarrow> (sys, Some AttributeError)
      | Some t \<Rightarrow>
          if py_lower (py_strip t) \<noteq> [1076, 1072]
          then (clear_state uid (answer uid (Say ''deletion cancelled'') sys), None)
          else case d_item_id (get_data sys uid) of
            None \<Rightarrow> (sys, Some KeyError)
          | Some item_id \<Rightarrow>
              let (ok, d) = delete_item (store sys) item_id;
                  sys1 = clear_state uid (sys\<lparr>store := d\<rparr>)
              in if ok then (answer uid (Say ''item deleted'') sys1, None)
                 else (answer uid (Say ''item not deleted'') sys1, None))"

subsection \<open>Search, lists and reports\<close>

definition search_start_cb :: handler where
  "search_start_cb cx uid cb sys =
     (answer uid (Say ''enter search query'')
        (set_state uid (Some SearchItem_query) (answer uid CallbackAck sys)), None)"

definition search_run :: handler where
  "search_run cx uid text sys =
     (case text of
        None \<Rightarrow> (sys, Some AttributeError)
      | Some t \<Rightarrow>
          let found = search_items (store sys) (py_strip t);
              sys1 = clear_state uid sys
          in if found = [] then (answer uid (Say ''nothing found'') sys1, None)
             else (answer uid (ItemsTable ''search results'' found) sys1, None))"

definition list_items_message :: handler where
  "list_items_message cx uid text sys =
     (case render_items_page (store sys) 1 of
        (txt, tp) \<Rightarrow> (answer uid (ItemsList txt tp) sys, None))"

definition list_items_callback :: handler where
  "list_items_callback cx uid cb sys =
     (case cb of
        None \<Rightarrow> (sys, Some AttributeError)
      | Some data \<Rightarrow>
          case split_colon data of
            x # raw_page # rest \<Rightarrow>
              (case py_int raw_page of
                 None \<Rightarrow> (sys, Some ValueError)
               | Some page \<Rightarrow>
                   (case render_items_page (store sys) page of
                      (txt, tp) \<Rightarrow>
                        (answer uid CallbackAck (answer uid (ItemsList txt tp) sys), None)))
          | _ \<Rightarrow> (sys, Some IndexError))"

definition low_stock :: "bool \<Rightarrow> handler" where
  "low_stock is_callback cx uid ev sys =
     (let sys1 = (if is_callback then answer uid CallbackAck sys else sys);
          found = list_low_stock (store sys)
      in if found = [] then (answer uid (Say ''no low stock'') sys1, None)
         else (answer uid (ItemsTable ''low stock'' found) sys1, None))"

definition export_csv :: "bool \<Rightarrow> handler" where
  "export_csv is_callback cx uid ev sys =
     (let sys1 = (if is_callback then answer uid CallbackAck sys else sys);
          found = export_items (store sys)
      in if found = [] then (answer uid (Say ''nothing to export'') sys1, None)
         else (answer uid (ExportDocument found) sys1, None))"

definition history :: "bool \<Rightarrow> handler" where
  "history is_callback cx uid ev sys =
     (let sys1 = (if is_callback then answer uid CallbackAck sys else sys);
          moves = list_movements (store sys)
      in if moves = [] then (answer uid (Say ''history is empty'') sys1, None)
         else (answer uid (History moves) sys1, None))"

subsection \<open>UpdateItem\<close>

definition update_item_start :: handler where
  "update_item_start cx uid cb sys =
     (answer uid (Say ''enter sku or id to edit'')
        (set_state uid (Some UpdateItem_key) (answer uid CallbackAck sys)), None)"

definition set_min_start :: handler where
  "set_min_start cx uid cb sys =
     (answer uid (Say ''enter sku or id for minimum'')
        (set_state uid (Some UpdateItem_key)
           (update_data uid (\<lambda>d. d\<lparr>d_preset_field := Some (str ''min_qty'')\<rparr>)
              (clear_state uid (answer uid CallbackAck sys)))),
      None)"

definition update_item_key :: handler where
  "update_item_key cx uid text sys =
     (case text of
        None \<Rightarrow> (sys, Some AttributeError)
      | Some t \<Rightarrow>
          case get_item_by_key (store sys) t of
            None \<Rightarrow> (answer uid (Say ''item not found, enter sku or id'') sys, None)
          | Some item \<Rightarrow>
              let preset_field = (case d_preset_field (get_data sys uid) of
                                    None \<Rightarrow> [] | Some f \<Rightarrow> f);
                  sys1 = update_data uid (\<lambda>d. d\<lparr>d_item_id := Some (it_id item)\<rparr>) sys
              in if preset_field \<noteq> [] then
                   (answer uid (Say ''enter new min_qty'')
                      (set_state uid (Some UpdateItem_value)
                         (update_data uid (\<lambda>d. d\<lparr>d_field := Some preset_field\<rparr>) sys1)),
                    None)
                 else (answer uid (Say ''choose field'') (set_state uid (Some UpdateItem_field) sys1),
                       None))"

definition field_names :: "pystr list" where
  "field_names =
     [str ''name'', str ''sku'', str ''unit'', str ''location'', str ''warehouse'', str ''min_qty'']"

definition update_item_field :: handler where
  "update_item_field cx uid text sys =
     (case text of
        None \<Rightarrow> (sys, Some AttributeError)
      | Some t \<Rightarrow>
          let field = py_lower (py_strip t) in
          if field \<notin> set field_names then (answer uid (Say ''one of the field names needed'') sys, None)
          else (answer uid (Say ''enter new value'')
                  (set_state uid (Some UpdateItem_value)
                     (update_data uid (\<lambda>d. d\<lparr>d_field := Some field\<rparr>) sys)),
                None))"

definition update_item_field_cb :: handler where
  "update_item_field_cb cx uid cb sys =
     (let sys1 = answer uid CallbackAck sys in
      case cb of
        None \<Rightarrow> (sys1, Some AttributeError)
      | Some data \<Rightarrow>
          case split_colon data of
            x # field # rest \<Rightarrow>
              if field \<notin> set field_names then (answer uid (Say ''wrong field'') sys1, None)
              else (answer uid (Say ''enter new value'')
                      (set_state uid (Some UpdateItem_value)
                         (update_data uid (\<lambda>d. d\<lparr>d_field := Some field\<rparr>) sys1)),
                    None)
          | _ \<Rightarrow> (sys1, Some IndexError))"

text \<open>
  \<open>update_item_value\<close> passes the one field as a keyword argument. A value \<open>None\<close>,
  which the \<open>-\<close> of the user gives for \<open>location\<close> and \<open>warehouse\<close>, reaches
  \<open>update_item_fields\<close> as an argument that is not given.
\<close>

definition update_item_value :: handler where
  "update_item_value cx uid text sys =
     (let data = get_data sys uid in
      case d_field data of
        None \<Rightarrow> (sys, Some KeyError)
      | Some field \<Rightarrow>
          (case text of
             None \<Rightarrow> (sys, Some AttributeError)
           | Some t \<Rightarrow>
               let value_raw = py_strip t;
                   number = parse_number value_raw;
                   clears = ((field = str ''location'' \<or> field = str ''warehouse'')
                               \<and> value_raw = str ''-'')
               in if field = str ''min_qty'' \<and> number = None
                  then (answer uid (Say ''number needed'') sys, None)
                  else if field \<noteq> str ''min_qty'' \<and> \<not> clears \<and> value_raw = []
                  then (answer uid (Say ''value must not be empty'') sys, None)
                  else case d_item_id data of
                    None \<Rightarrow> (sys, Some KeyError)
                  | Some item_id \<Rightarrow>
                      if field \<notin> set field_names then (sys, Some TypeError)
                      else
                        let txt = (if clears then None else Some value_raw);
                            pick = (\<lambda>f. if field = f then txt else None);
                            (ok, d) = update_item_fields (store sys) (clock cx) item_id
                                        (pick (str ''name'')) (pick (str ''sku''))
                                        (pick (str ''unit'')) (pick (str ''location''))
                                        (pick (str ''warehouse''))
                                        (if field = str ''min_qty'' then number else None);
                            sys1 = clear_state uid (sys\<lparr>store := d\<rparr>)
                        in if \<not> ok then (answer uid (Say ''not updated, sku may exist'') sys1, None)
                           else case get_item_by_id d item_id of
                                  None \<Rightarrow> (sys1, Some TypeError)
                                | Some i \<Rightarrow> (answer uid (ItemCard ''updated'' (Some i)) sys1, None)))"

subsection \<open>Warehouse lists, admin list, backup\<close>

definition warehouses_list :: handler where
  "warehouses_list cx uid cb sys =
     (let sys1 = answer uid CallbackAck sys;
          rows = list_warehouses (store sys)
      in if rows = [] then (answer uid (Say ''no warehouses yet'') sys1, None)
         else (answer uid (WarehouseList rows) sys1, None))"

definition warehouse_items_start :: handler where
  "warehouse_items_start cx uid cb sys =
     (answer uid (ChooseWarehouseFilter (list_warehouses (store sys))) (answer uid CallbackAck sys),
      None)"

definition warehouse_filter :: handler where
  "warehouse_filter cx uid cb sys =
     (let sys1 = answer uid CallbackAck sys in
      case cb of
        None \<Rightarrow> (sys1, Some AttributeError)
      | Some data \<Rightarrow>
          let parts = split_colon data in
          if length parts \<noteq> 4 then (answer uid (Say ''wrong filter format'') sys1, None)
          else case py_int (parts ! 1) of
            None \<Rightarrow> (sys1, Some ValueError)
          | Some warehouse_id \<Rightarrow>
              (case py_int (parts ! 3) of
                 None \<Rightarrow> (sys1, Some ValueError)
               | Some page \<Rightarrow>
                   if warehouse_id \<noteq> 0 \<and> get_warehouse_by_id (store sys) warehouse_id = None
                   then (answer uid (Say ''warehouse not found'') sys1, None)
                   else
                     let warehouse_name =
                           (if warehouse_id = 0 then None
                            else map_option wh_name (get_warehouse_by_id (store sys) warehouse_id))
                     in case render_items_by_warehouse (store sys) warehouse_name (parts ! 2) page of
                          (txt, tp) \<Rightarrow> (answer uid (ItemsList txt tp) sys1, None)))"

definition admins_list :: handler where
  "admins_list cx uid cb sys =
     (answer uid (AdminList (list_admins (store sys))) (answer uid CallbackAck sys), None)"

definition backup_db :: handler where
  "backup_db cx uid cb sys =
     (let sys1 = answer uid CallbackAck sys in
      if db_path cx = [] then (answer uid (Say ''database path not set'') sys1, None)
      else if \<not> db_file_exists cx then (answer uid (Say ''database file not found'') sys1, None)
      else (answer uid BackupDocument sys1, None))"

subsection \<open>Menus, help and cancellation\<close>

definition say_only :: "string \<Rightarrow> handler" where
  "say_only what cx uid ev sys = (answer uid (Say what) sys, None)"

definition ack_and_say :: "string \<Rightarrow> handler" where
  "ack_and_say what cx uid ev sys = (answer uid (Say what) (answer uid CallbackAck sys), None)"

definition cmd_id :: handler where
  "cmd_id cx uid text sys = (answer uid (YourId uid) sys, None)"

definition bulk_add_start :: "bool \<Rightarrow> handler" where
  "bulk_add_start is_callback cx uid ev sys =
     (answer uid (Say ''bulk import prompt'')
        (set_state uid (Some BulkAdd_lines) (if is_callback then answer uid CallbackAck sys else sys)),
      None)"

definition back_to_main :: handler where
  "back_to_main cx uid cb sys = (answer uid CallbackAck (answer uid (Say ''main menu'') sys), None)"

definition cmd_cancel :: handler where
  "cmd_cancel cx uid text sys = (answer uid (Say ''action cancelled'') (clear_state uid sys), None)"

definition cancel_any_state :: handler where
  "cancel_any_state cx uid text sys =
     (if get_state sys uid = None then (sys, None)
      else (answer uid (Say ''action cancelled'') (clear_state uid sys), None))"

definition admin_unknown :: handler where
  "admin_unknown cx uid text sys = (answer uid (Say ''command not understood'') sys, None)"

section \<open>Routing of the events\<close>

text \<open>
  The \<open>Command\<close> filter of the framework on the text of a message: the first word of
  the text must be a slash, the command, and optionally \<open>@\<close> and a mention, which
  must be the bot's user name up to letter case.
\<close>

definition is_command :: "env \<Rightarrow> pystr \<Rightarrow> pystr option \<Rightarrow> bool" where
  "is_command cx name text =
     (case text of
        None \<Rightarrow> False
      | Some t \<Rightarrow>
          let full = takeWhile (\<lambda>c. \<not> py_isspace c) (dropWhile py_isspace t);
              command = takeWhile (\<lambda>c. c \<noteq> 64) (drop 1 full);
              mention = drop 1 (dropWhile (\<lambda>c. c \<noteq> 64) (drop 1 full))
          in take 1 full = [47] \<and> command = name \<and>
             (if mention = [] then True
              else case bot_username cx of
                     None \<Rightarrow> True
                   | Some u \<Rightarrow> if u = [] then True else py_lower mention = py_lower u))"

text \<open>
  The texts that the filter of \<open>cancel_any_state\<close> lists: the label of the cancel
  button and three literals, the word in Cyrillic with and without a capital, and the
  same after the stop sign.
\<close>

definition cancel_words :: "env \<Rightarrow> pystr list" where
  "cancel_words cx =
     [BTN_CANCEL cx,
      [1054, 1090, 1084, 1077, 1085, 1072],
      [1086, 1090, 1084, 1077, 1085, 1072],
      [9209, 65039, 32, 1054, 1090, 1084, 1077, 1085, 1072]]"

text \<open>
  The message handlers of \<open>admin_router\<close> in the order of their registration; the
  first whose filter accepts the message handles it. A handler with a state as filter
  accepts the message when the user's dialogue is in that state.
\<close>

definition admin_message :: handler where
  "admin_message cx uid text sys =
     (let st = get_state sys uid;
          pressed = (\<lambda>label. text = Some label)
      in if is_command cx (str ''menu'') text then say_only ''main menu'' cx uid text sys
         else if is_command cx (str ''admin'') text then say_only ''main menu'' cx uid text sys
         else if is_command cx (str ''id'') text then cmd_id cx uid text sys
         else if is_command cx (str ''help'') text \<or> pressed (BTN_HELP cx)
           then say_only ''help'' cx uid text sys
         else if is_command cx (str ''cancel'') text then cmd_cancel cx uid text sys
         else if text \<in> set (map Some (cancel_words cx)) then cancel_any_state cx uid text sys
         else if pressed (BTN_WAREHOUSE cx) then say_only ''section warehouse'' cx uid text sys
         else if pressed (BTN_BULK_ADD cx) then bulk_add_start False cx uid text sys
         else if pressed (BTN_REPORTS cx) then say_only ''section reports'' cx uid text sys
         else if pressed (BTN_ADMIN cx) then say_only ''admin panel'' cx uid text sys
         else if pressed (BTN_SETTINGS cx) then say_only ''settings'' cx uid text sys
         else if pressed (BTN_WAREHOUSES cx) then say_only ''warehouses'' cx uid text sys
         else if pressed (BTN_ADD_ITEM cx) then add_item_start False cx uid text sys
         else if st = Some AddItem_sku then add_item_sku cx uid text sys
         else if st = Some AddItem_name then add_item_name cx uid text sys
         else if st = Some AddItem_qty then add_item_qty cx uid text sys
         else if st = Some AddItem_unit then add_item_unit cx uid text sys
         else if st = Some AddItem_location then add_item_location cx uid text sys
         else if st = Some AddItem_min_qty then add_item_min cx uid text sys
         else if pressed (BTN_ADJUST_QTY cx) then adjust_qty_start False cx uid text sys
         else if st = Some AdjustItem_key then adjust_qty_key cx uid text sys
         else if st = Some AdjustItem_delta then adjust_qty_delta cx uid text sys
         else if st = Some AdjustItem_note then adjust_qty_note cx uid text sys
         else if pressed (BTN_SET_QTY cx) then set_qty_start False cx uid text sys
         else if st = Some SetQty_key then set_qty_key cx uid text sys
         else if st = Some SetQty_qty then set_qty_value cx uid text sys
         else if st = Some SetQty_note then set_qty_note cx uid text sys
         else if pressed (BTN_DELETE_ITEM cx) then delete_item_start False cx uid text sys
         else if st = Some DeleteItem_key then delete_item_key cx uid text sys
         else if st = Some DeleteItem_confirm then delete_item_confirm cx uid text sys
         else if pressed (BTN_SEARCH cx) then say_only ''choose search'' cx uid text sys
         else if st = Some SearchItem_query then search_run cx uid text sys
         else if pressed (BTN_LIST_ITEMS cx) then list_items_message cx uid text sys
         else if pressed (BTN_LOW_STOCK cx) then low_stock False cx uid text sys
         else if pressed (BTN_EXPORT_CSV cx) then export_csv False cx uid text sys
         else if pressed (BTN_HISTORY cx) then history False cx uid text sys
         else if st = Some AddWarehouse_name then warehouse_add_name cx uid text sys
         else if st = Some UpdateItem_key then update_item_key cx uid text sys
         else if st = Some UpdateItem_field then update_item_field cx uid text sys
         else if st = Some UpdateItem_value then update_item_value cx uid text sys
         else if st = Some AddAdmin_tg_id then admin_add_tg_id cx uid text sys
         else if st = Some AddAdmin_name then admin_add_name cx uid text sys
         else if st = Some RemoveAdmin_tg_id then admin_remove_tg_id cx uid text sys
         else if st = Some BulkAdd_lines then bulk_add_process cx uid text sys
         else admin_unknown cx uid text sys)"

text \<open>
  The callback handlers of \<open>admin_router\<close> in the order of their registration;
  \<open>None\<close> when no filter accepts the callback, which then goes on to the next router.
\<close>

definition admin_callback ::
  "env \<Rightarrow> int \<Rightarrow> pystr option \<Rightarrow> system \<Rightarrow> (system \<times> error option) option" where
  "admin_callback cx uid cb sys =
     (let st = get_state sys uid;
          is_data = (\<lambda>name. cb = Some (str name));
          starts = (\<lambda>pre. case cb of None \<Rightarrow> False | Some data \<Rightarrow> startswith data (str pre))
      in if is_data ''bulk_add'' then Some (bulk_add_start True cx uid cb sys)
         else if is_data ''settings_menu'' then Some (ack_and_say ''settings'' cx uid cb sys)
         else if is_data ''warehouses_menu'' then Some (ack_and_say ''warehouses'' cx uid cb sys)
         else if is_data ''back_to_main'' then Some (back_to_main cx uid cb sys)
         else if is_data ''add_item'' then Some (add_item_start True cx uid cb sys)
         else if starts ''prefill_item:'' then Some (add_item_prefill cx uid cb sys)
         else if st = Some AddItem_warehouse \<and> starts ''warehouse_select:''
           then Some (add_item_warehouse_select cx uid cb sys)
         else if is_data ''adjust_qty'' then Some (adjust_qty_start True cx uid cb sys)
         else if is_data ''set_qty'' then Some (set_qty_start True cx uid cb sys)
         else if is_data ''delete_item'' then Some (delete_item_start True cx uid cb sys)
         else if is_data ''search'' then Some (search_start_cb cx uid cb sys)
         else if starts ''list_items:'' then Some (list_items_callback cx uid cb sys)
         else if is_data ''low_stock'' then Some (low_stock True cx uid cb sys)
         else if is_data ''export_csv'' then Some (export_csv True cx uid cb sys)
         else if is_data ''history'' then Some (history True cx uid cb sys)
         else if is_data ''update_item'' then Some (update_item_start cx uid cb sys)
         else if is_data ''set_min'' then Some (set_min_start cx uid cb sys)
         else if is_data ''warehouses_list'' then Some (warehouses_list cx uid cb sys)
         else if is_data ''warehouse_add'' then Some (warehouse_add_start cx uid cb sys)
         else if is_data ''warehouse_items'' then Some (warehouse_items_start cx uid cb sys)
         else if starts ''warehouse_filter:'' then Some (warehouse_filter cx uid cb sys)
         else if st = Some UpdateItem_field \<and> starts ''update_field:''
           then Some (update_item_field_cb cx uid cb sys)
         else if is_data ''admins_list'' then Some (admins_list cx uid cb sys)
         else if is_data ''admin_add'' then Some (admin_add_start cx uid cb sys)
         else if is_data ''admin_remove'' then Some (admin_remove_start cx uid cb sys)
         else if is_data ''backup_db'' then Some (backup_db cx uid cb sys)
         else None)"

text \<open>The three handlers of \<open>public_router\<close>.\<close>

definition cmd_start :: handler where
  "cmd_start cx uid text sys =
     (if is_admin (store sys) uid
      then (answer uid (Say ''main menu'') (answer uid (Say ''greeting'') sys), None)
      else (answer uid (Say ''access denied, ask an administrator'') sys, None))"

definition public_callback :: handler where
  "public_callback cx uid cb sys =
     (if is_admin (store sys) uid then (sys, None)
      else (answer uid (Alert ''access denied'') sys, None))"

definition public_fallback :: handler where
  "public_fallback cx uid text sys =
     (if is_admin (store sys) uid then (sys, None)
      else (answer uid (Say ''access denied, ask an administrator'') sys, None))"

text \<open>
  An event is a text message or a callback selection of a user. The dispatcher offers
  it to \<open>admin_router\<close> first, whose filter \<open>IsAdmin\<close> lets it in when the user is in
  the admins table, and to \<open>public_router\<close> when no handler there has taken it.
\<close>

datatype event = Message int "pystr option" | CallbackQuery int "pystr option"

fun dispatch :: "env \<Rightarrow> event \<Rightarrow> system \<Rightarrow> system \<times> error option" where
  "dispatch cx (Message uid text) sys =
     (if is_admin (store sys) uid then admin_message cx uid text sys
      else if is_command cx (str ''start'') text then cmd_start cx uid text sys
      else public_fallback cx uid text sys)"
| "dispatch cx (CallbackQuery uid cb) sys =
     (case (if is_admin (store sys) uid then admin_callback cx uid cb sys else None) of
        Some r \<Rightarrow> r
      | None \<Rightarrow> public_callback cx uid cb sys)"

text \<open>
  What the cancellation property needs of the labels of \<open>constants.py\<close>: the help
  label and the cancel label are not slash commands, and the help label is not one of
  the cancel words.
\<close>

definition is_slash :: "pystr \<Rightarrow> bool" where
  "is_slash t \<longleftrightarrow> take 1 (dropWhile py_isspace t) = [47]"

definition labels_ok :: "env \<Rightarrow> bool" where
  "labels_ok cx \<longleftrightarrow>
     BTN_HELP cx \<notin> set (cancel_words cx) \<and> \<not> is_slash (BTN_HELP cx) \<and> \<not> is_slash (BTN_CANCEL cx)"

text \<open>The texts that the two cancel handlers accept.\<close>

definition cancel_token :: "env \<Rightarrow> pystr option \<Rightarrow> bool" where
  "cancel_token cx text \<longleftrightarrow>
     is_command cx (str ''cancel'') text \<or> text \<in> set (map Some (cancel_words cx))"

text \<open>
  A SetQty dialogue of one user, step by step: the key, the new value, the note. Between
  the steps the store is replaced by \<open>dB\<close> and then \<open>dD\<close>: whatever the operations
  of other users have made of it in the meantime.
\<close>

definition set_qty_dialogue ::
  "env \<Rightarrow> int \<Rightarrow> pystr \<Rightarrow> pystr \<Rightarrow> pystr \<Rightarrow> system \<Rightarrow> database \<Rightarrow> database \<Rightarrow> system \<times> error option" where
  "set_qty_dialogue cx uid key v note sys0 dB dD =
     (let sysA = fst (set_qty_key cx uid (Some key) sys0);
          sysC = fst (set_qty_value cx uid (Some v) (sysA\<lparr>store := dB\<rparr>))
      in set_qty_note cx uid (Some note) (sysC\<lparr>store := dD\<rparr>))"

section \<open>A concrete store\<close>

text \<open>
  Two admins, one warehouse, two items in it, two movements of the first item and one
  of the second; a context in which only the first admin is a super-admin, with
  stand-in button labels; and a state in which nobody is in a dialogue. They are used
  to run the operations on concrete data.
\<close>

definition sample_db :: database where
  "sample_db =
     \<lparr>admins = [\<lparr>adm_id = 1, adm_tg_id = 1001, adm_name = Some (str ''superadmin''),
                  adm_added_at = str ''2024-01-01T00:00:00''\<rparr>,
                \<lparr>adm_id = 2, adm_tg_id = 2002, adm_name = None,
                  adm_added_at = str ''2024-01-05T00:00:00''\<rparr>],
      items = [\<lparr>it_id = 1, it_sku = str ''A-1'', it_name = str ''Widget'', it_qty = Finite 10,
                 it_unit = str ''pcs'', it_location = None, it_warehouse = Some (str ''Main''),
                 it_min_qty = Finite 2, it_updated_at = str ''2024-01-01T00:00:00''\<rparr>,
               \<lparr>it_id = 2, it_sku = str ''B-2'', it_name = str ''Gadget'', it_qty = Finite 3,
                 it_unit = str ''pcs'', it_location = Some (str ''Shelf 1''),
                 it_warehouse = Some (str ''Main''), it_min_qty = Finite 0,
                 it_updated_at = str ''2024-01-01T00:00:00''\<rparr>],
      warehouses = [\<lparr>wh_id = 1, wh_name = str ''Main'', wh_created_at = str ''2024-01-01T00:00:00''\<rparr>],
      movements = [\<lparr>mv_id = 1, mv_item_id = 1, mv_delta = Finite 4, mv_note = None,
                     mv_admin_tg_id = 1001, mv_created_at = str ''2024-01-02T00:00:00''\<rparr>,
                   \<lparr>mv_id = 2, mv_item_id = 2, mv_delta = Finite (- 1), mv_note = None,
                     mv_admin_tg_id = 1001, mv_created_at = str ''2024-01-03T00:00:00''\<rparr>,
                   \<lparr>mv_id = 3, mv_item_id = 1, mv_delta = Finite 6, mv_note = Some (str ''restock''),
                     mv_admin_tg_id = 1001, mv_created_at = str ''2024-01-04T00:00:00''\<rparr>],
      seq_admins = 2, seq_items = 2, seq_warehouses = 1, seq_movements = 3\<rparr>"

definition sample_cx :: env where
  "sample_cx =
     \<lparr>super_admins = {1001}, clock = str ''2024-02-01T00:00:00'',
      bot_username = Some (str ''stockbot''),
      db_path = str ''data.db'', db_file_exists = True,
      BTN_ADD_ITEM = str ''Add item'', BTN_ADMIN = str ''Admin'',
      BTN_ADJUST_QTY = str ''Adjust quantity'', BTN_BULK_ADD = str ''Bulk add'',
      BTN_CANCEL = str ''Cancel'', BTN_DELETE_ITEM = str ''Delete item'',
      BTN_EXPORT_CSV = str ''Export CSV'', BTN_HELP = str ''Help'',
      BTN_HISTORY = str ''History'', BTN_LOW_STOCK = str ''Low stock'',
      BTN_LIST_ITEMS = str ''List items'', BTN_REPORTS = str ''Reports'',
      BTN_SEARCH = str ''Search'', BTN_SETTINGS = str ''Settings'',
      BTN_SET_QTY = str ''Set quantity'', BTN_WAREHOUSES = str ''Warehouses'',
      BTN_WAREHOUSE = str ''Warehouse''\<rparr>"

definition sample_sys :: system where
  "sample_sys = \<lparr>store = sample_db, fsm = (\<lambda>uid. idle), outbox = []\<rparr>"

definition fresh_sys :: system where
  "fresh_sys = \<lparr>store = empty_db, fsm = (\<lambda>uid. idle), outbox = []\<rparr>"

definition sample_db_later :: database where
  "sample_db_later = sample_db\<lparr>items := map (\<lambda>r. r\<lparr>it_qty := Finite 99\<rparr>) (items sample_db)\<rparr>"

section \<open>Properties\<close>

subsection \<open>Helper facts\<close>

lemma is_admin_add_admin:
  "is_admin (snd (add_admin d now t n s)) u \<longleftrightarrow> u = t \<or> is_admin d u"
  by (auto simp: is_admin_def add_admin_def)

lemma is_admin_ensure_admins:
  "is_admin (ensure_admins d now ts) u \<longleftrightarrow> u \<in> set ts \<or> is_admin d u"
  by (induction ts arbitrary: d) (auto simp: is_admin_add_admin)

lemma clamp_page_cases:
  "clamp_page page (total_pages n) =
     (if page < 1 then 1 else if total_pages n < page then total_pages n else page)"
  by (auto simp: clamp_page_def total_pages_def)

lemma remove_admin_is_admin:
  "is_admin d tg_id \<Longrightarrow>
     fst (remove_admin d tg_id) \<and> \<not> is_admin (snd (remove_admin d tg_id)) tg_id"
  by (auto simp: is_admin_def remove_admin_def filter_empty_conv)

lemma find_updated_qty:
  "item_id \<in> it_id ` set xs \<Longrightarrow>
   \<exists>y. find (\<lambda>r. it_id r = item_id)
      (map (\<lambda>r. if it_id r = item_id then r\<lparr>it_qty := q, it_updated_at := t\<rparr> else r) xs) = Some y
       \<and> it_qty y = q"
  by (induction xs) auto

lemma ids_after_update:
  "(\<lambda>x. it_id (if it_id x = item_id then x\<lparr>it_qty := q, it_updated_at := t\<rparr> else x)) ` set xs
     = it_id ` set xs"
  by (rule image_cong) auto

lemmas text_defs = str_def py_strip_def py_isspace_def is_ascii_digit_def
lemmas num_defs = parse_number_def py_float_def split_sign_def sql_lower_def ascii_lower_def
  parse_decimal_def parse_exponent_def digits_value_def scale10_def ascii_strip_def
  ascii_isspace_def to_double_def DBL_OVERFLOW_def

lemma parse_number_ten: "parse_number (str ''10'') = Some (Finite 10)"
  by (simp add: text_defs num_defs)
lemma parse_number_five: "parse_number (str ''5'') = Some (Finite 5)"
  by (simp add: text_defs num_defs)
lemma parse_number_zero: "parse_number (str ''0'') = Some (Finite 0)"
  by (simp add: text_defs num_defs)

lemma example_fields_stripped: "py_strip (str ''A-1'') = str ''A-1'' \<and> py_strip (str ''Widget'') = str ''Widget''
  \<and> py_strip (str ''Dup'') = str ''Dup'' \<and> py_strip (str ''10'') = str ''10'' \<and> py_strip (str ''5'') = str ''5''
  \<and> py_strip (str ''bad'') = str ''bad'' \<and> py_strip (str ''line'') = str ''line''"
  by (simp add: text_defs)

lemma example_fields_nonempty: "str ''A-1'' \<noteq> [] \<and> str ''Widget'' \<noteq> [] \<and> str ''Dup'' \<noteq> [] \<and> str ''10'' \<noteq> [] \<and> str ''5'' \<noteq> []
  \<and> str ''bad'' \<noteq> [] \<and> str ''line'' \<noteq> []"
  by (simp add: str_def)









lemma is_command_slash: "is_command cx name (Some t) \<Longrightarrow> is_slash t"
proof -
  assume a: "is_command cx name (Some t)"
  let ?r = "dropWhile py_isspace t"
  from a have f: "take 1 (takeWhile (\<lambda>c. \<not> py_isspace c) ?r) = [47]"
    by (simp add: is_command_def Let_def)
  then show ?thesis
    by (cases "?r") (auto simp: is_slash_def split: if_splits)
qed

lemma is_command_name: "is_command cx a text \<Longrightarrow> is_command cx b text \<Longrightarrow> a = b"
  by (cases "text") (auto simp: is_command_def Let_def)

lemma cancel_word_no_command:
  assumes "labels_ok cx" "w \<in> set (cancel_words cx)"
  shows "\<not> is_command cx name (Some w)"
proof
  assume "is_command cx name (Some w)"
  then have "is_slash w" by (rule is_command_slash)
  moreover have "\<not> is_slash w"
    using assms by (auto simp: labels_ok_def cancel_words_def is_slash_def py_isspace_def)
  ultimately show False by simp
qed

lemma token_not_earlier:
  assumes ok: "labels_ok cx" and tok: "cancel_token cx text"
  shows "\<not> is_command cx (str ''menu'') text \<and> \<not> is_command cx (str ''admin'') text \<and>
         \<not> is_command cx (str ''id'') text \<and> \<not> is_command cx (str ''help'') text \<and>
         text \<noteq> Some (BTN_HELP cx)"
proof (cases "is_command cx (str ''cancel'') text")
  case True
  have d: "str ''menu'' \<noteq> str ''cancel''" "str ''admin'' \<noteq> str ''cancel''"
    "str ''id'' \<noteq> str ''cancel''" "str ''help'' \<noteq> str ''cancel''"
    by (simp_all add: str_def)
  have "text \<noteq> Some (BTN_HELP cx)"
    using True ok is_command_slash [of cx "str ''cancel''" "BTN_HELP cx"]
    by (auto simp: labels_ok_def)
  then show ?thesis using True d is_command_name [of cx _ "text" "str ''cancel''"] by blast
next
  case False
  then obtain w where w: "text = Some w" "w \<in> set (cancel_words cx)"
    using tok by (auto simp: cancel_token_def)
  have "w \<noteq> BTN_HELP cx" using ok w by (auto simp: labels_ok_def)
  then show ?thesis using w cancel_word_no_command [OF ok w(2)] by simp
qed

subsection \<open>Pagination\<close>

text \<open>
  C5, as stated, at an empty table: the listing reports one page, where
  \<open>ceil(N / P)\<close> is zero.
\<close>

theorem pagination_zero_items_counterexample:
  "snd (render_items_page empty_db 1) = 1 \<and>
   \<lceil>real_of_int (count_items empty_db) / real_of_int PAGE_SIZE\<rceil> = 0"
  by (simp add: render_items_page_def total_pages_def count_items_def empty_db_def PAGE_SIZE_def
      clamp_page_def list_items_def Let_def)

text \<open>
  C5, amended: both paginated listings report \<open>max(1, ceil(N / P))\<close> pages, with
  \<open>P = PAGE_SIZE = 10\<close> and \<open>N\<close> the number of rows that the listing counts; the page
  shown is page 1 for a request below 1, the last page for a request beyond it, and
  the requested page otherwise, and its rows are the slice of that page.
\<close>

theorem pagination_pages_and_clamp:
  "snd (render_items_page d page) = max 1 \<lceil>real_of_int (count_items d) / real_of_int PAGE_SIZE\<rceil> \<and>
   snd (render_items_by_warehouse d w srt page)
     = max 1 \<lceil>real_of_int (count_items_by_warehouse d w) / real_of_int PAGE_SIZE\<rceil> \<and>
   fst (render_items_page d page) =
     (let tp = snd (render_items_page d page);
          shown = (if page < 1 then 1 else if tp < page then tp else page);
          rows = list_items d PAGE_SIZE ((shown - 1) * PAGE_SIZE)
      in if rows = [] then NoItems else ItemsPage shown tp rows) \<and>
   fst (render_items_by_warehouse d w srt page) =
     (let tp = snd (render_items_by_warehouse d w srt page);
          shown = (if page < 1 then 1 else if tp < page then tp else page);
          rows = list_items_by_warehouse d w srt PAGE_SIZE ((shown - 1) * PAGE_SIZE)
      in if rows = [] then NoItems else ItemsPage shown tp rows)"
  by (simp add: render_items_page_def render_items_by_warehouse_def Let_def clamp_page_cases)
     (simp add: total_pages_def)

subsection \<open>Deletion\<close>

text \<open>
  C8: deleting an item that exists reports success, removes the item and removes every
  movement that refers to it, and no other movement; deleting a warehouse leaves the
  items table, and so every item's warehouse field, as it was.
\<close>

theorem delete_item_cascades:
  "item_id \<in> set (map it_id (items d)) \<Longrightarrow>
     fst (delete_item d item_id) \<and>
     get_item_by_id (snd (delete_item d item_id)) item_id = None \<and>
     item_id \<notin> set (map mv_item_id (movements (snd (delete_item d item_id)))) \<and>
     movements (snd (delete_item d item_id)) = filter (\<lambda>m. mv_item_id m \<noteq> item_id) (movements d) \<and>
     items (snd (delete_item d item_id)) = filter (\<lambda>r. it_id r \<noteq> item_id) (items d) \<and>
     items (snd (delete_warehouse d name)) = items d"
  by (auto simp: delete_item_def delete_warehouse_def get_item_by_id_def filter_empty_conv
      find_None_iff)

theorem delete_item_cascades_witness:
  "1 \<in> set (map it_id (items sample_db)) \<and>
   fst (delete_item sample_db 1) \<and>
   get_item_by_id (snd (delete_item sample_db 1)) 1 = None \<and>
   map mv_id (movements (snd (delete_item sample_db 1))) = [2] \<and>
   map it_id (items (snd (delete_item sample_db 1))) = [2] \<and>
   map it_warehouse (items (snd (delete_warehouse sample_db (str ''Main''))))
     = [Some (str ''Main''), Some (str ''Main'')] \<and>
   warehouses (snd (delete_warehouse sample_db (str ''Main''))) = []"
proof -
  have h: "1 \<in> set (map it_id (items sample_db))"
    by (simp add: sample_db_def)
  have w: "warehouses (snd (delete_warehouse sample_db (str ''Main''))) = []"
    by (simp add: delete_warehouse_def sample_db_def)
  from delete_item_cascades [OF h, of "str ''Main''"] h w show ?thesis
    by (simp add: sample_db_def)
qed

subsection \<open>Super-admin checks\<close>

text \<open>
  C2, as stated, in the AddWarehouse flow: an admin who is not a super-admin, at the
  only step of the flow, is not denied; the warehouse is added.
\<close>

theorem add_warehouse_not_gated_counterexample:
  "\<not> is_super_admin 2002 sample_cx \<and>
   snd (warehouse_add_name sample_cx 2002 (Some (str ''Depot''))
          (set_state 2002 (Some AddWarehouse_name) sample_sys)) = None \<and>
   outbox (fst (warehouse_add_name sample_cx 2002 (Some (str ''Depot''))
                  (set_state 2002 (Some AddWarehouse_name) sample_sys)))
     = [(2002, Say ''warehouse added'')] \<and>
   map wh_name (warehouses (store (fst (warehouse_add_name sample_cx 2002 (Some (str ''Depot''))
                  (set_state 2002 (Some AddWarehouse_name) sample_sys)))))
     = [str ''Main'', str ''Depot''] \<and>
   map wh_name (warehouses (store sample_sys)) = [str ''Main'']"
  by (simp add: is_super_admin_def sample_cx_def warehouse_add_name_def set_state_def
      sample_sys_def add_warehouse_def sample_db_def str_def py_strip_def py_isspace_def
      clear_state_def answer_def Let_def)

text \<open>
  C2, amended: in the AddAdmin and RemoveAdmin flows every step handler checks the
  caller again. For a caller who is not a configured super-admin, whatever the input,
  the handler sends the denial, clears the caller's session, and leaves the store and
  every other session as they were.
\<close>

theorem admin_steps_recheck:
  "\<not> is_super_admin uid cx \<Longrightarrow>
     admin_add_tg_id cx uid text sys
       = (sys\<lparr>fsm := (fsm sys)(uid := idle),
               outbox := outbox sys @ [(uid, Say ''insufficient rights'')]\<rparr>, None) \<and>
     admin_add_name cx uid text sys
       = (sys\<lparr>fsm := (fsm sys)(uid := idle),
               outbox := outbox sys @ [(uid, Say ''insufficient rights'')]\<rparr>, None) \<and>
     admin_remove_tg_id cx uid text sys
       = (sys\<lparr>fsm := (fsm sys)(uid := idle),
               outbox := outbox sys @ [(uid, Say ''insufficient rights'')]\<rparr>, None)"
  by (simp add: admin_add_tg_id_def admin_add_name_def admin_remove_tg_id_def answer_def
      clear_state_def)

theorem admin_steps_recheck_witness:
  "\<not> is_super_admin 2002 sample_cx \<and>
   store (fst (admin_add_name sample_cx 2002 (Some (str ''Bob''))
                 (update_data 2002 (\<lambda>d. d\<lparr>d_tg_id := Some 3003\<rparr>)
                    (set_state 2002 (Some AddAdmin_name) sample_sys)))) = sample_db \<and>
   fsm (fst (admin_add_name sample_cx 2002 (Some (str ''Bob''))
                 (update_data 2002 (\<lambda>d. d\<lparr>d_tg_id := Some 3003\<rparr>)
                    (set_state 2002 (Some AddAdmin_name) sample_sys)))) 2002 = idle \<and>
   outbox (fst (admin_remove_tg_id sample_cx 2002 (Some (str ''1001''))
                 (set_state 2002 (Some RemoveAdmin_tg_id) sample_sys)))
     = [(2002, Say ''insufficient rights'')] \<and>
   store (fst (admin_remove_tg_id sample_cx 2002 (Some (str ''1001''))
                 (set_state 2002 (Some RemoveAdmin_tg_id) sample_sys))) = sample_db"
proof -
  have h: "\<not> is_super_admin 2002 sample_cx"
    by (simp add: is_super_admin_def sample_cx_def)
  from admin_steps_recheck [OF h] h show ?thesis
    by (simp add: sample_sys_def set_state_def update_data_def)
qed

subsection \<open>Setting a quantity\<close>

text \<open>
  C3: when a SetQty dialogue runs to its end on an item that still exists at the commit,
  the item's quantity becomes the new value and exactly one movement is appended, whose
  delta is the new value minus the quantity that the key step read, whatever the store
  has become between the steps. (The delta must be a number: a \<open>NaN\<close> is refused by
  the \<open>NOT NULL\<close> column.)
\<close>

theorem set_qty_delta_from_key_time:
  assumes key: "get_item_by_key (store sys0) key = Some item"
    and q: "parse_number v = Some q"
    and present: "it_id item \<in> set (map it_id (items dD))"
    and nn: "fsub q (it_qty item) \<noteq> NaN"
  shows "snd (set_qty_dialogue cx uid key v note sys0 dB dD) = None \<and>
         map_option it_qty
           (get_item_by_id (store (fst (set_qty_dialogue cx uid key v note sys0 dB dD))) (it_id item))
           = Some q \<and>
         movements (store (fst (set_qty_dialogue cx uid key v note sys0 dB dD))) = movements dD @
           [\<lparr>mv_id = seq_movements dD + 1, mv_item_id = it_id item,
             mv_delta = fsub q (it_qty item),
             mv_note = (if py_strip note = str ''-'' then None else Some (py_strip note)),
             mv_admin_tg_id = uid, mv_created_at = clock cx\<rparr>] \<and>
         fsm (fst (set_qty_dialogue cx uid key v note sys0 dB dD)) uid = idle"
proof -
  have qn: "q \<noteq> NaN" using nn by (cases q) (auto simp: fsub_def)
  show ?thesis
    using key q present nn qn
      find_updated_qty [where item_id = "it_id item" and xs = "items dD" and q = q and t = "clock cx"]
    by (auto simp add: set_qty_dialogue_def set_qty_key_def set_qty_value_def set_qty_note_def
        Let_def answer_def set_state_def update_data_def get_data_def update_item_qty_def
        add_movement_def get_item_by_id_def clear_state_def ids_after_update
        split: option.splits)
qed

theorem set_qty_delta_from_key_time_witness:
  "get_item_by_key (store sample_sys) (str ''A-1'') = Some (hd (items sample_db)) \<and>
   parse_number (str ''7,5'') = Some (Finite (15 / 2)) \<and>
   it_id (hd (items sample_db)) \<in> set (map it_id (items sample_db_later)) \<and>
   fsub (Finite (15 / 2)) (it_qty (hd (items sample_db))) \<noteq> NaN \<and>
   map it_qty (items sample_db_later) = [Finite 99, Finite 99] \<and>
   map mv_delta (movements (store (fst (set_qty_dialogue sample_cx 2002 (str ''A-1'') (str ''7,5'')
       (str ''-'') sample_sys sample_db_later sample_db_later))))
     = [Finite 4, Finite (- 1), Finite 6, Finite (- (5 / 2))]"
proof -
  have k: "get_item_by_key (store sample_sys) (str ''A-1'') = Some (hd (items sample_db))"
    by (simp add: sample_sys_def sample_db_def get_item_by_key_def get_item_by_sku_def
        py_strip_def py_isspace_def py_isdigit_def is_ascii_digit_def str_def sql_lower_def
        ascii_lower_def)
  have q: "parse_number (str ''7,5'') = Some (Finite (15 / 2))"
    by (simp add: text_defs num_defs)
  have p: "it_id (hd (items sample_db)) \<in> set (map it_id (items sample_db_later))"
    by (simp add: sample_db_later_def sample_db_def)
  have n: "fsub (Finite (15 / 2)) (it_qty (hd (items sample_db))) \<noteq> NaN"
    by (simp add: sample_db_def fsub_def)
  have l: "map it_qty (items sample_db_later) = [Finite 99, Finite 99]"
    by (simp add: sample_db_later_def sample_db_def)
  have m: "map mv_delta (movements sample_db_later) = [Finite 4, Finite (- 1), Finite 6]"
    by (simp add: sample_db_later_def sample_db_def)
  have d: "fsub (Finite (15 / 2)) (it_qty (hd (items sample_db))) = Finite (- (5 / 2))"
    by (simp add: sample_db_def fsub_def)
  from set_qty_delta_from_key_time [OF k q p n, of sample_cx 2002 "str ''-''" sample_db_later]
  show ?thesis using k q p n l m d by simp
qed

subsection \<open>Removing admins\<close>

text \<open>
  C10: \<open>remove_admin\<close> on an identity that is in the admins table deletes it and
  answers true, and \<open>is_admin\<close> is false afterwards. The RemoveAdmin step does this for
  any such identity that a super-admin types, with no exception for a configured
  super-admin or for the caller; afterwards the identity is an admin again after
  \<open>ensure_admins\<close> exactly when it is among the identities passed to it.
\<close>

theorem remove_admin_unguarded:
  assumes "is_admin (store sys) tg_id"
    and "is_super_admin uid cx"
    and "py_isdigit (py_strip t)"
    and "int (digits_value (py_strip t)) = tg_id"
  shows "fst (remove_admin (store sys) tg_id) \<and>
         \<not> is_admin (snd (remove_admin (store sys) tg_id)) tg_id \<and>
         admin_remove_tg_id cx uid (Some t) sys
           = (sys\<lparr>store := snd (remove_admin (store sys) tg_id), fsm := (fsm sys)(uid := idle),
                   outbox := outbox sys @ [(uid, Say ''admin removed'')]\<rparr>, None) \<and>
         (is_admin (ensure_admins (snd (remove_admin (store sys) tg_id)) nw tg_ids) tg_id
            \<longleftrightarrow> tg_id \<in> set tg_ids)"
  using assms remove_admin_is_admin [of "store sys" tg_id]
  by (auto simp: admin_remove_tg_id_def Let_def clear_state_def answer_def
      is_admin_ensure_admins split: prod.splits)

theorem remove_admin_unguarded_witness:
  "is_admin (store sample_sys) 1001 \<and> is_super_admin 1001 sample_cx \<and>
   py_isdigit (py_strip (str ''1001'')) \<and> int (digits_value (py_strip (str ''1001''))) = 1001 \<and>
   \<not> is_admin (store (fst (admin_remove_tg_id sample_cx 1001 (Some (str ''1001'')) sample_sys))) 1001 \<and>
   outbox (fst (admin_remove_tg_id sample_cx 1001 (Some (str ''1001'')) sample_sys))
     = [(1001, Say ''admin removed'')] \<and>
   is_admin (ensure_admins (snd (remove_admin (store sample_sys) 1001)) (str ''t'') [1001]) 1001"
proof -
  have a: "is_admin (store sample_sys) 1001"
    by (simp add: sample_sys_def sample_db_def is_admin_def)
  have b: "is_super_admin 1001 sample_cx"
    by (simp add: is_super_admin_def sample_cx_def)
  have c: "py_isdigit (py_strip (str ''1001''))"
    by (simp add: py_isdigit_def py_strip_def str_def py_isspace_def is_ascii_digit_def)
  have d: "int (digits_value (py_strip (str ''1001''))) = 1001"
    by (simp add: py_strip_def str_def py_isspace_def digits_value_def)
  from remove_admin_unguarded [OF a b c d, of "str ''t''" "[1001]"] a b c d show ?thesis
    by (simp add: sample_sys_def)
qed

subsection \<open>Numeric parsing\<close>

text \<open>
  C9 at a failing input. \<open>nan\<close> is not a decimal number, and \<open>parse_number\<close> does not
  return the invalid result for it: the conversion of the source accepts the name. The
  value step of a SetQty dialogue then goes on to the note step instead of asking again,
  and the commit ends in the \<open>IntegrityError\<close> of the \<open>NOT NULL\<close> column, which no
  handler catches; the quantity is left as it was and no movement is recorded.
\<close>

theorem parse_number_accepts_nan:
  "\<not> decimal_number (py_strip (str ''nan'')) \<and>
   parse_number (str ''nan'') = Some NaN \<and>
   get_state (fst (set_qty_value sample_cx 2002 (Some (str ''nan''))
                     (set_state 2002 (Some SetQty_qty) sample_sys))) 2002 = Some SetQty_note \<and>
   outbox (fst (set_qty_value sample_cx 2002 (Some (str ''nan''))
                  (set_state 2002 (Some SetQty_qty) sample_sys))) = [(2002, Say ''enter note'')] \<and>
   snd (set_qty_dialogue sample_cx 2002 (str ''A-1'') (str ''nan'') (str ''-'') sample_sys
          sample_db sample_db) = Some IntegrityError \<and>
   store (fst (set_qty_dialogue sample_cx 2002 (str ''A-1'') (str ''nan'') (str ''-'') sample_sys
          sample_db sample_db)) = sample_db"
proof -
  have d: "\<not> decimal_number (py_strip (str ''nan''))"
    by (simp add: decimal_number_def split_sign_def text_defs)
  have n: "parse_number (str ''nan'') = Some NaN"
    by (simp add: text_defs num_defs)
  have k: "get_item_by_key sample_db (str ''A-1'') = Some (hd (items sample_db))"
    by (simp add: sample_db_def get_item_by_key_def get_item_by_sku_def py_isdigit_def
        sql_lower_def ascii_lower_def text_defs)
  have v: "get_state (fst (set_qty_value sample_cx 2002 (Some (str ''nan''))
                     (set_state 2002 (Some SetQty_qty) sample_sys))) 2002 = Some SetQty_note \<and>
      outbox (fst (set_qty_value sample_cx 2002 (Some (str ''nan''))
                  (set_state 2002 (Some SetQty_qty) sample_sys))) = [(2002, Say ''enter note'')]"
    by (simp add: set_qty_value_def n get_state_def set_state_def update_data_def answer_def
        sample_sys_def)
  have i: "1 \<in> it_id ` set (items sample_db)"
    by (simp add: sample_db_def)
  have r: "set_qty_dialogue sample_cx 2002 (str ''A-1'') (str ''nan'') (str ''-'') sample_sys
          sample_db sample_db
        = (fst (set_qty_dialogue sample_cx 2002 (str ''A-1'') (str ''nan'') (str ''-'') sample_sys
                  sample_db sample_db), Some IntegrityError) \<and>
      store (fst (set_qty_dialogue sample_cx 2002 (str ''A-1'') (str ''nan'') (str ''-'') sample_sys
          sample_db sample_db)) = sample_db"
    using i
    by (simp add: set_qty_dialogue_def set_qty_key_def set_qty_value_def set_qty_note_def k n
        Let_def answer_def set_state_def update_data_def get_data_def update_item_qty_def
        sample_sys_def)
       (simp add: sample_db_def)
  from d n v r show ?thesis by (metis snd_conv)
qed

subsection \<open>Bulk import\<close>



subsection \<open>Uniqueness of skus\<close>

text \<open>
  C1 at a failing input. The sku step of the AddItem dialogue refuses \<open>a-1\<close> when
  \<open>A-1\<close> is stored, through the case-insensitive lookup. The bulk import, \<open>add_item\<close>
  itself and \<open>update_item_fields\<close> rely on the \<open>UNIQUE\<close> column alone, which is
  case-sensitive: each of them stores \<open>a-1\<close> beside \<open>A-1\<close>.
\<close>

theorem sku_case_variants_both_stored:
  "sql_lower (str ''A-1'') = sql_lower (str ''a-1'') \<and>
   bulk_replies sample_cx 1001 [str ''A-1,Widget,10'', str ''a-1,Widget,5''] fresh_sys
     = [(1001, BulkReport 2 0 [] 0)] \<and>
   map it_sku (items (store (fst (bulk_add_process sample_cx 1001
       (Some (join_lines [str ''A-1,Widget,10'', str ''a-1,Widget,5''])) fresh_sys))))
     = [str ''A-1'', str ''a-1''] \<and>
   fst (add_item sample_db (clock sample_cx) (str ''a-1'') (str ''Widget'') (Finite 5) (str ''pcs'')
          None None (Finite 0)) \<and>
   fst (update_item_fields sample_db (clock sample_cx) 2 None (Some (str ''a-1'')) None None None None) \<and>
   map it_sku (items (snd (update_item_fields sample_db (clock sample_cx) 2 None (Some (str ''a-1''))
          None None None None)))
     = [str ''A-1'', str ''a-1''] \<and>
   outbox (fst (add_item_sku sample_cx 1001 (Some (str ''a-1'')) sample_sys))
     = [(1001, Say ''sku already exists, enter another'')]"
proof -
  have rows: "parse_bulk_lines (join_lines [str ''A-1,Widget,10'', str ''a-1,Widget,5''])
      = [[str ''A-1'', str ''Widget'', str ''10''], [str ''a-1'', str ''Widget'', str ''5'']]"
    by (simp add: parse_bulk_lines_def py_splitlines_def csv_row_def is_linebreak_def text_defs)
  have st: "py_strip (str ''a-1'') = str ''a-1''"
    by (simp add: text_defs)
  have lower_sku_nonempty: "str ''a-1'' \<noteq> [] \<and> str ''a-1'' \<noteq> str ''A-1''"
    by (simp add: str_def)
  have a: "sql_lower (str ''A-1'') = sql_lower (str ''a-1'')"
    by (simp add: sql_lower_def ascii_lower_def str_def)
  have b: "bulk_replies sample_cx 1001 [str ''A-1,Widget,10'', str ''a-1,Widget,5''] fresh_sys
     = [(1001, BulkReport 2 0 [] 0)]"
    by (simp add: bulk_replies_def bulk_add_process_def rows bulk_row_def field_at_def
        example_fields_stripped st example_fields_nonempty lower_sku_nonempty parse_number_ten
        parse_number_five parse_number_zero add_item_def Let_def answer_def clear_state_def
        fresh_sys_def empty_db_def del: join_lines.simps)
  have c: "map it_sku (items (store (fst (bulk_add_process sample_cx 1001
       (Some (join_lines [str ''A-1,Widget,10'', str ''a-1,Widget,5''])) fresh_sys))))
     = [str ''A-1'', str ''a-1'']"
    by (simp add: bulk_add_process_def rows bulk_row_def field_at_def
        example_fields_stripped st example_fields_nonempty lower_sku_nonempty parse_number_ten
        parse_number_five parse_number_zero add_item_def Let_def answer_def clear_state_def
        fresh_sys_def empty_db_def del: join_lines.simps)
  have d: "fst (add_item sample_db (clock sample_cx) (str ''a-1'') (str ''Widget'') (Finite 5)
          (str ''pcs'') None None (Finite 0))"
    by (simp add: add_item_def sample_db_def str_def)
  have e: "fst (update_item_fields sample_db (clock sample_cx) 2 None (Some (str ''a-1'')) None None
          None None) \<and>
      map it_sku (items (snd (update_item_fields sample_db (clock sample_cx) 2 None
          (Some (str ''a-1'')) None None None None))) = [str ''A-1'', str ''a-1'']"
    by (simp add: update_item_fields_def sample_db_def str_def Let_def)
  have f: "outbox (fst (add_item_sku sample_cx 1001 (Some (str ''a-1'')) sample_sys))
     = [(1001, Say ''sku already exists, enter another'')]"
    by (simp add: add_item_sku_def get_item_by_sku_def sample_sys_def sample_db_def
        sql_lower_def ascii_lower_def text_defs answer_def Let_def)
  from a b c d e f show ?thesis by simp
qed

subsection \<open>Cancellation\<close>

text \<open>
  C6: for an admin whose dialogue is at any step of any flow, a message that one of the
  two cancel handlers accepts (the command \<open>/cancel\<close>, or one of the cancel words)
  is handled by that handler before any step handler: the session of that user is
  cleared, the cancellation is acknowledged, and the store, like every other session,
  stays as it was.
\<close>

theorem cancel_clears_session:
  assumes admin: "is_admin (store sys) uid"
    and ok: "labels_ok cx"
    and step: "get_state sys uid = Some st"
    and tok: "cancel_token cx text"
  shows "dispatch cx (Message uid text) sys
           = (sys\<lparr>fsm := (fsm sys)(uid := idle),
                   outbox := outbox sys @ [(uid, Say ''action cancelled'')]\<rparr>, None)"
proof -
  note e = token_not_earlier [OF ok tok]
  show ?thesis
  proof (cases "is_command cx (str ''cancel'') text")
    case True
    then show ?thesis using admin e
      by (simp add: admin_message_def Let_def cmd_cancel_def answer_def clear_state_def)
  next
    case False
    then have "text \<in> set (map Some (cancel_words cx))" using tok by (simp add: cancel_token_def)
    then show ?thesis using admin e False step
      by (simp add: admin_message_def Let_def cancel_any_state_def answer_def clear_state_def)
  qed
qed


theorem cancel_clears_session_witness:
  "is_admin (store (set_state 2002 (Some AddWarehouse_name) sample_sys)) 2002 \<and>
   labels_ok sample_cx \<and>
   get_state (set_state 2002 (Some AddWarehouse_name) sample_sys) 2002 = Some AddWarehouse_name \<and>
   cancel_token sample_cx (Some (str ''/cancel'')) \<and>
   store (fst (dispatch sample_cx (Message 2002 (Some (str ''/cancel'')))
                 (set_state 2002 (Some AddWarehouse_name) sample_sys))) = sample_db \<and>
   fsm (fst (dispatch sample_cx (Message 2002 (Some (str ''/cancel'')))
                 (set_state 2002 (Some AddWarehouse_name) sample_sys))) 2002 = idle \<and>
   outbox (fst (dispatch sample_cx (Message 2002 (Some (str ''/cancel'')))
                 (set_state 2002 (Some AddWarehouse_name) sample_sys)))
     = [(2002, Say ''action cancelled'')]"
proof -
  have a: "is_admin (store (set_state 2002 (Some AddWarehouse_name) sample_sys)) 2002"
    by (simp add: set_state_def sample_sys_def sample_db_def is_admin_def)
  have b: "labels_ok sample_cx"
    by (simp add: labels_ok_def cancel_words_def is_slash_def sample_cx_def str_def py_isspace_def)
  have c: "get_state (set_state 2002 (Some AddWarehouse_name) sample_sys) 2002
             = Some AddWarehouse_name"
    by (simp add: get_state_def set_state_def)
  have d: "cancel_token sample_cx (Some (str ''/cancel''))"
    by (simp add: cancel_token_def is_command_def str_def py_isspace_def Let_def)
  from cancel_clears_session [OF a b c d] a b c d show ?thesis
    by (simp add: set_state_def sample_sys_def)
qed

subsection \<open>The admin gate\<close>

text \<open>
  C7: for a user who is not in the admins table, every text message is answered with
  the denial text and every callback selection with the denial alert (the short form of
  that text); no handler of a dialogue runs, and the sessions and the store stay as
  they were.
\<close>

theorem non_admin_denied:
  assumes "\<not> is_admin (store sys) uid"
  shows "dispatch cx (Message uid text) sys
           = (sys\<lparr>outbox := outbox sys @ [(uid, Say ''access denied, ask an administrator'')]\<rparr>, None) \<and>
         dispatch cx (CallbackQuery uid cb) sys
           = (sys\<lparr>outbox := outbox sys @ [(uid, Alert ''access denied'')]\<rparr>, None)"
  using assms
  by (simp add: cmd_start_def public_fallback_def public_callback_def answer_def)


theorem non_admin_denied_witness:
  "\<not> is_admin (store sample_sys) 3003 \<and>
   dispatch sample_cx (Message 3003 (Some (str ''/cancel''))) sample_sys
     = (sample_sys\<lparr>outbox := [(3003, Say ''access denied, ask an administrator'')]\<rparr>, None) \<and>
   dispatch sample_cx (CallbackQuery 3003 (Some (str ''admin_add''))) sample_sys
     = (sample_sys\<lparr>outbox := [(3003, Alert ''access denied'')]\<rparr>, None)"
proof -
  have h: "\<not> is_admin (store sample_sys) 3003"
    by (simp add: sample_sys_def sample_db_def is_admin_def)
  from non_admin_denied [OF h] h show ?thesis
    by (simp add: sample_sys_def)
qed

end
